theory Spec2Isabelle
  imports Complex_Main "HOL-Library.AList"
begin

section \<open>Statement frames\<close>

text \<open>
  The calculators read pandas frames built from the fetched statement dicts: one column
  per period, one row per line item. A frame is modelled by its row labels (\<open>index\<close>) and
  its columns in the order the parse step left them (most recent first in
  \<open>TTMCalculator\<close> and \<open>MetricsCalculator\<close>, oldest first in \<open>GrowthAnalyzer\<close>). A cell
  that pandas holds as NaN (the period does not report the item) is \<open>None\<close>.
  Floats are idealised as reals; NaN is modelled wherever the source reads it.
\<close>

record DataFrame =
  index :: "string list"
  columns :: "(string \<rightharpoonup> real) list"

text \<open>\<open>df.empty\<close>: an axis of length zero.\<close>

definition df_empty :: "DataFrame \<Rightarrow> bool" where
  "df_empty df = (index df = [] \<or> columns df = [])"

text \<open>\<open>df.iloc[:, :n]\<close>: the first \<open>n\<close> columns, same row labels.\<close>

definition iloc_first :: "DataFrame \<Rightarrow> nat \<Rightarrow> DataFrame" where
  "iloc_first df n = df\<lparr>columns := take n (columns df)\<rparr>"

text \<open>\<open>df.loc[field]\<close> for a label of the index: the row, one cell per column.\<close>

definition loc :: "DataFrame \<Rightarrow> string \<Rightarrow> real option list" where
  "loc df field = map (\<lambda>c. c field) (columns df)"

fun dropna :: "real option list \<Rightarrow> real list" where
  "dropna [] = []"
| "dropna (None # xs) = dropna xs"
| "dropna (Some v # xs) = v # dropna xs"

section \<open>TTM aggregation (ttm\_calculator.py)\<close>

record TTMCalculator =
  quarterly_financials :: "DataFrame option"
  quarterly_cashflow :: "DataFrame option"
  quarterly_balance :: "DataFrame option"

definition get_last_n_quarters :: "DataFrame option \<Rightarrow> nat \<Rightarrow> DataFrame option" where
  "get_last_n_quarters df n =
     (case df of
        None \<Rightarrow> None
      | Some d \<Rightarrow>
          if df_empty d then None
          else if length (columns d) < n then None
          else Some (iloc_first d n))"

definition sum_quarters :: "DataFrame option \<Rightarrow> string \<Rightarrow> nat \<Rightarrow> real option" where
  "sum_quarters df field n =
     (case get_last_n_quarters df n of
        None \<Rightarrow> None
      | Some quarters \<Rightarrow>
          if field \<notin> set (index quarters) then None
          else let values = dropna (loc quarters field)
               in if length values < n then None
                  else Some (sum_list values))"

text \<open>Python's \<open>a or b\<close> on two optional floats: \<open>None\<close> and \<open>0.0\<close> are falsy.\<close>

definition or_else :: "real option \<Rightarrow> real option \<Rightarrow> real option" where
  "or_else a b = (case a of None \<Rightarrow> b | Some v \<Rightarrow> if v = 0 then b else Some v)"

definition get_ttm_revenue :: "TTMCalculator \<Rightarrow> real option" where
  "get_ttm_revenue self = sum_quarters (quarterly_financials self) ''Total Revenue'' 4"

definition get_ttm_net_income :: "TTMCalculator \<Rightarrow> real option" where
  "get_ttm_net_income self = sum_quarters (quarterly_financials self) ''Net Income'' 4"

definition get_ttm_operating_income :: "TTMCalculator \<Rightarrow> real option" where
  "get_ttm_operating_income self =
     or_else (sum_quarters (quarterly_financials self) ''Operating Income'' 4)
             (sum_quarters (quarterly_financials self) ''EBIT'' 4)"

definition get_ttm_operating_cashflow :: "TTMCalculator \<Rightarrow> real option" where
  "get_ttm_operating_cashflow self =
     or_else (sum_quarters (quarterly_cashflow self) ''Operating Cash Flow'' 4)
             (sum_quarters (quarterly_cashflow self)
                ''Cash Flow From Continuing Operating Activities'' 4)"

definition get_ttm_capex :: "TTMCalculator \<Rightarrow> real option" where
  "get_ttm_capex self = sum_quarters (quarterly_cashflow self) ''Capital Expenditure'' 4"

definition get_ttm_fcf :: "TTMCalculator \<Rightarrow> real option" where
  "get_ttm_fcf self =
     (case sum_quarters (quarterly_cashflow self) ''Free Cash Flow'' 4 of
        Some direct_fcf \<Rightarrow> Some direct_fcf
      | None \<Rightarrow>
          (case get_ttm_operating_cashflow self of
             None \<Rightarrow> None
           | Some ocf \<Rightarrow>
               (case get_ttm_capex self of
                  None \<Rightarrow> Some ocf
                | Some capex \<Rightarrow> if capex < 0 then Some (ocf + capex) else Some (ocf - capex))))"

text \<open>
  The reading of the contract: a frame has \<open>n\<close> periods when it is a non-empty frame
  with at least \<open>n\<close> columns; a field is present in a period when it is a row of the
  frame and that period's cell is not NaN.
\<close>

definition has_periods :: "DataFrame option \<Rightarrow> nat \<Rightarrow> bool" where
  "has_periods df n =
     (case df of None \<Rightarrow> False | Some d \<Rightarrow> \<not> df_empty d \<and> n \<le> length (columns d))"

definition present_in :: "DataFrame \<Rightarrow> string \<Rightarrow> (string \<rightharpoonup> real) \<Rightarrow> bool" where
  "present_in d field c = (field \<in> set (index d) \<and> c field \<noteq> None)"

definition present_in_recent :: "DataFrame option \<Rightarrow> string \<Rightarrow> nat \<Rightarrow> bool" where
  "present_in_recent df field n =
     (case df of
        None \<Rightarrow> False
      | Some d \<Rightarrow> field \<in> set (index d) \<and> (\<forall>c \<in> set (take n (columns d)). present_in d field c))"

definition recent_sum :: "DataFrame option \<Rightarrow> string \<Rightarrow> nat \<Rightarrow> real" where
  "recent_sum df field n =
     (case df of
        None \<Rightarrow> 0
      | Some d \<Rightarrow> (\<Sum>c \<leftarrow> take n (columns d). (case c field of None \<Rightarrow> 0 | Some v \<Rightarrow> v)))"

section \<open>Growth streaks (growth\_analyzer.py)\<close>

text \<open>The analyzer's frame is sorted oldest first.\<close>

record GrowthAnalyzer =
  ga_annual_financials :: "DataFrame option"

definition get_metric_series :: "GrowthAnalyzer \<Rightarrow> string \<Rightarrow> real list option" where
  "get_metric_series self field =
     (case ga_annual_financials self of
        None \<Rightarrow> None
      | Some df \<Rightarrow>
          if field \<notin> set (index df) then None
          else let series = dropna (loc df field)
               in if series = [] then None else Some series)"

text \<open>
  The \<open>for i in range(len(values) - 1)\<close> loop with its \<open>break\<close>: the indices still to
  visit and the counter so far. Both reads are in range, since \<open>i + 1 < len(values)\<close>.
\<close>

fun growth_loop :: "real list \<Rightarrow> nat list \<Rightarrow> nat \<Rightarrow> nat" where
  "growth_loop vals [] consecutive = consecutive"
| "growth_loop vals (i # rest) consecutive =
     (let current = vals ! i; previous = vals ! (i + 1)
      in if previous > 0 \<and> current > previous
         then growth_loop vals rest (consecutive + 1)
         else consecutive)"

definition count_consecutive_growth_years :: "GrowthAnalyzer \<Rightarrow> string \<Rightarrow> nat" where
  "count_consecutive_growth_years self field =
     (case get_metric_series self field of
        None \<Rightarrow> 0
      | Some series \<Rightarrow>
          if length series < 2 then 0
          else let vals = rev series
               in growth_loop vals [0 ..< length vals - 1] 0)"

definition get_revenue_growth_years :: "GrowthAnalyzer \<Rightarrow> nat" where
  "get_revenue_growth_years self = count_consecutive_growth_years self ''Total Revenue''"

definition get_earnings_growth_years :: "GrowthAnalyzer \<Rightarrow> nat" where
  "get_earnings_growth_years self = count_consecutive_growth_years self ''Net Income''"

text \<open>
  The contract's words: the observed points of a field are the values of the periods
  that report it, oldest first; a step pairs a value with the one before it in time;
  the streak is the number of leading steps, walking back from the newest value, whose
  earlier value is positive and smaller than the later one.
\<close>

definition observed :: "GrowthAnalyzer \<Rightarrow> string \<Rightarrow> real list" where
  "observed self field =
     (case ga_annual_financials self of
        None \<Rightarrow> []
      | Some df \<Rightarrow> if field \<in> set (index df) then dropna (loc df field) else [])"

definition grows :: "real \<times> real \<Rightarrow> bool" where
  "grows step = (case step of (current, previous) \<Rightarrow> previous > 0 \<and> current > previous)"

definition streak :: "real list \<Rightarrow> nat" where
  "streak newest_first = length (takeWhile grows (zip newest_first (tl newest_first)))"

section \<open>Peer averages (industry\_averages.py)\<close>

text \<open>
  The two \<open>defaultdict(list)\<close> pools and the two average dicts are insertion-ordered
  dicts: association lists read with \<open>map_of\<close> and written with \<open>AList.update\<close>, which
  replaces the value of a key in place or appends a new key. PE values reaching the pool
  are finite floats. The copy of the averages that \<open>_calculate_averages\<close> hands to the
  disk cache is never read back by the operations below and is left out.
\<close>

record IndustryAverages =
  pe_by_industry :: "(string \<times> real list) list"
  pe_by_sector :: "(string \<times> real list) list"
  averages_calculated :: bool
  industry_avg :: "(string \<times> real) list"
  sector_avg :: "(string \<times> real) list"

definition IndustryAverages_init :: IndustryAverages where
  "IndustryAverages_init =
     \<lparr>pe_by_industry = [], pe_by_sector = [], averages_calculated = False,
      industry_avg = [], sector_avg = []\<rparr>"

text \<open>\<open>pool[label].append(pe)\<close> on a \<open>defaultdict(list)\<close>.\<close>

definition bucket_append ::
  "(string \<times> real list) list \<Rightarrow> string \<Rightarrow> real \<Rightarrow> (string \<times> real list) list" where
  "bucket_append pool label pe =
     AList.update label ((case map_of pool label of None \<Rightarrow> [] | Some pes \<Rightarrow> pes) @ [pe]) pool"

text \<open>Truthiness of an optional string: \<open>None\<close> and the empty string are falsy.\<close>

definition truthy_str :: "string option \<Rightarrow> bool" where
  "truthy_str s = (case s of None \<Rightarrow> False | Some t \<Rightarrow> t \<noteq> [])"

definition add_company ::
  "IndustryAverages \<Rightarrow> string option \<Rightarrow> string option \<Rightarrow> real option \<Rightarrow> IndustryAverages" where
  "add_company self industry sector pe =
     (case pe of
        None \<Rightarrow> self
      | Some p \<Rightarrow>
          if p \<le> 0 \<or> p > 200 then self
          else
            let self1 = (case industry of
                           None \<Rightarrow> self
                         | Some i \<Rightarrow> if i = [] then self
                                     else self\<lparr>pe_by_industry := bucket_append (pe_by_industry self) i p\<rparr>);
                self2 = (case sector of
                           None \<Rightarrow> self1
                         | Some s \<Rightarrow> if s = [] then self1
                                     else self1\<lparr>pe_by_sector := bucket_append (pe_by_sector self1) s p\<rparr>)
            in self2\<lparr>averages_calculated := False\<rparr>)"

text \<open>The median block that \<open>_calculate_averages\<close> runs on each non-empty bucket.\<close>

definition bucket_median :: "real list \<Rightarrow> real" where
  "bucket_median pes =
     (let sorted_pes = sort pes; mid = length sorted_pes div 2
      in if length sorted_pes mod 2 = 0
         then (sorted_pes ! (mid - 1) + sorted_pes ! mid) / 2
         else sorted_pes ! mid)"

text \<open>One \<open>for label, pes in pool.items()\<close> loop of \<open>_calculate_averages\<close>.\<close>

definition collapse ::
  "(string \<times> real list) list \<Rightarrow> (string \<times> real) list \<Rightarrow> (string \<times> real) list" where
  "collapse pool avg =
     fold (\<lambda>(label, pes) acc. if pes \<noteq> [] then AList.update label (bucket_median pes) acc else acc)
          pool avg"

definition calculate_averages :: "IndustryAverages \<Rightarrow> IndustryAverages" where
  "calculate_averages self =
     self\<lparr>industry_avg := collapse (pe_by_industry self) (industry_avg self),
          sector_avg := collapse (pe_by_sector self) (sector_avg self),
          averages_calculated := True\<rparr>"

text \<open>The readers return their result together with the pool as they leave it.\<close>

definition get_industry_average ::
  "IndustryAverages \<Rightarrow> string option \<Rightarrow> real option \<times> IndustryAverages" where
  "get_industry_average self industry =
     (let self1 = (if \<not> averages_calculated self then calculate_averages self else self)
      in case industry of
           None \<Rightarrow> (None, self1)
         | Some i \<Rightarrow> if i = [] then (None, self1) else (map_of (industry_avg self1) i, self1))"

definition get_sector_average ::
  "IndustryAverages \<Rightarrow> string option \<Rightarrow> real option \<times> IndustryAverages" where
  "get_sector_average self sector =
     (let self1 = (if \<not> averages_calculated self then calculate_averages self else self)
      in case sector of
           None \<Rightarrow> (None, self1)
         | Some s \<Rightarrow> if s = [] then (None, self1) else (map_of (sector_avg self1) s, self1))"

definition get_peer_average ::
  "IndustryAverages \<Rightarrow> string option \<Rightarrow> string option \<Rightarrow> real option \<times> IndustryAverages" where
  "get_peer_average self industry sector =
     (case get_industry_average self industry of
        (Some a, self1) \<Rightarrow> (Some a, self1)
      | (None, self1) \<Rightarrow> get_sector_average self1 sector)"

text \<open>
  A run of the pool: any sequence of calls on a fresh pool. The PEs pooled under a label
  are those of the earlier \<open>add_company\<close> calls that carried the label and a PE that is
  known, positive and at most 200. The median of the contract: the middle of the sorted
  pool, the average of the two central values when the size is even.
\<close>

datatype pool_call =
    AddCompany "string option" "string option" "real option"
  | GetIndustryAverage "string option"
  | GetSectorAverage "string option"
  | GetPeerAverage "string option" "string option"

fun pool_step :: "pool_call \<Rightarrow> IndustryAverages \<Rightarrow> IndustryAverages" where
  "pool_step (AddCompany industry sector pe) self = add_company self industry sector pe"
| "pool_step (GetIndustryAverage industry) self = snd (get_industry_average self industry)"
| "pool_step (GetSectorAverage sector) self = snd (get_sector_average self sector)"
| "pool_step (GetPeerAverage industry sector) self = snd (get_peer_average self industry sector)"

definition pool_run :: "pool_call list \<Rightarrow> IndustryAverages" where
  "pool_run calls = fold pool_step calls IndustryAverages_init"

definition pe_accepted :: "real option \<Rightarrow> bool" where
  "pe_accepted pe = (case pe of None \<Rightarrow> False | Some p \<Rightarrow> 0 < p \<and> p \<le> 200)"

fun industry_entry :: "string \<Rightarrow> pool_call \<Rightarrow> real list" where
  "industry_entry label (AddCompany (Some i) sector (Some p)) =
     (if i = label \<and> label \<noteq> [] \<and> pe_accepted (Some p) then [p] else [])"
| "industry_entry label other = []"

fun sector_entry :: "string \<Rightarrow> pool_call \<Rightarrow> real list" where
  "sector_entry label (AddCompany industry (Some s) (Some p)) =
     (if s = label \<and> label \<noteq> [] \<and> pe_accepted (Some p) then [p] else [])"
| "sector_entry label other = []"

definition pooled_industry :: "string \<Rightarrow> pool_call list \<Rightarrow> real list" where
  "pooled_industry label calls = concat (map (industry_entry label) calls)"

definition pooled_sector :: "string \<Rightarrow> pool_call list \<Rightarrow> real list" where
  "pooled_sector label calls = concat (map (sector_entry label) calls)"

definition median :: "real list \<Rightarrow> real" where
  "median xs =
     (let s = sort xs; n = length xs
      in (s ! ((n - 1) div 2) + s ! (n div 2)) / 2)"

definition median_of_pool :: "real list \<Rightarrow> real option" where
  "median_of_pool pool = (if pool = [] then None else Some (median pool))"

section \<open>Return on invested capital (metrics.py)\<close>

text \<open>
  \<open>calculate_roic\<close> reads single cells with \<open>Series.get\<close> and tests them with
  \<open>pd.isna\<close> and with truthiness, so three outcomes of a read are kept apart: the label
  is no row of the frame (\<open>get\<close> gives \<open>None\<close>), the row exists and this period's cell
  is NaN, or the cell holds a number. NaN is truthy, compares false with everything and
  absorbs arithmetic.
\<close>

datatype pyfloat = NaN | Fl real

type_synonym Series = "string list \<times> (string \<rightharpoonup> real)"

text \<open>\<open>df.iloc[:, j]\<close>; \<open>None\<close> stands for the IndexError of a column that is not there.\<close>

definition iloc_col :: "DataFrame \<Rightarrow> nat \<Rightarrow> Series option" where
  "iloc_col df j = (if j < length (columns df) then Some (index df, columns df ! j) else None)"

definition series_get :: "Series \<Rightarrow> string \<Rightarrow> pyfloat option" where
  "series_get s key =
     (if key \<in> set (fst s)
      then Some (case snd s key of None \<Rightarrow> NaN | Some v \<Rightarrow> Fl v)
      else None)"

fun truthy :: "pyfloat option \<Rightarrow> bool" where
  "truthy None = False"
| "truthy (Some NaN) = True"
| "truthy (Some (Fl v)) = (v \<noteq> 0)"

definition por :: "pyfloat option \<Rightarrow> pyfloat option \<Rightarrow> pyfloat option" where
  "por a b = (if truthy a then a else b)"

text \<open>\<open>x or 0\<close>.\<close>

fun or_zero :: "pyfloat option \<Rightarrow> pyfloat" where
  "or_zero None = Fl 0"
| "or_zero (Some NaN) = NaN"
| "or_zero (Some (Fl v)) = Fl v"

fun isna :: "pyfloat option \<Rightarrow> bool" where
  "isna None = True"
| "isna (Some NaN) = True"
| "isna (Some (Fl v)) = False"

fun fadd :: "pyfloat \<Rightarrow> pyfloat \<Rightarrow> pyfloat" where
  "fadd (Fl a) (Fl b) = Fl (a + b)"
| "fadd a b = NaN"

fun fsub :: "pyfloat \<Rightarrow> pyfloat \<Rightarrow> pyfloat" where
  "fsub (Fl a) (Fl b) = Fl (a - b)"
| "fsub a b = NaN"

fun fmul :: "pyfloat \<Rightarrow> pyfloat \<Rightarrow> pyfloat" where
  "fmul (Fl a) (Fl b) = Fl (a * b)"
| "fmul a b = NaN"

text \<open>Division; \<open>None\<close> stands for ZeroDivisionError.\<close>

fun fdiv :: "pyfloat \<Rightarrow> pyfloat \<Rightarrow> pyfloat option" where
  "fdiv (Fl a) (Fl b) = (if b = 0 then None else Some (Fl (a / b)))"
| "fdiv a b = Some NaN"

fun fabs :: "pyfloat \<Rightarrow> pyfloat" where
  "fabs (Fl a) = Fl \<bar>a\<bar>"
| "fabs NaN = NaN"

fun flt :: "pyfloat \<Rightarrow> pyfloat \<Rightarrow> bool" where
  "flt (Fl a) (Fl b) = (a < b)"
| "flt a b = False"

fun fle :: "pyfloat \<Rightarrow> pyfloat \<Rightarrow> bool" where
  "fle (Fl a) (Fl b) = (a \<le> b)"
| "fle a b = False"

text \<open>The builtins \<open>max(a, b)\<close> and \<open>min(a, b)\<close>: the first argument unless the second beats it.\<close>

definition py_max :: "pyfloat \<Rightarrow> pyfloat \<Rightarrow> pyfloat" where
  "py_max a b = (if flt a b then b else a)"

definition py_min :: "pyfloat \<Rightarrow> pyfloat \<Rightarrow> pyfloat" where
  "py_min a b = (if flt b a then b else a)"

record MetricsCalculator =
  ttm :: TTMCalculator
  annual_financials :: "DataFrame option"
  annual_balance :: "DataFrame option"
  annual_cashflow :: "DataFrame option"

text \<open>
  The tax-rate block of \<open>calculate_roic\<close> (the local \<open>tax_rate\<close>); \<open>None\<close> stands for an
  exception inside the \<open>try\<close>.
\<close>

definition roic_tax_rate :: "Series \<Rightarrow> pyfloat option" where
  "roic_tax_rate fin =
     (let pretax = series_get fin ''Pretax Income'';
          tax = por (series_get fin ''Tax Provision'') (series_get fin ''Income Tax Expense'')
      in case (pretax, tax) of
           (Some p, Some t) \<Rightarrow>
             if truthy pretax \<and> truthy tax \<and> flt (Fl 0) p
             then (case fdiv (fabs t) p of
                     None \<Rightarrow> None
                   | Some tax_rate \<Rightarrow> Some (py_min (py_max tax_rate (Fl 0)) (Fl (1/2))))
             else Some (Fl (1/4))
         | other \<Rightarrow> Some (Fl (1/4)))"

text \<open>
  The local \<open>total_debt\<close> of \<open>calculate_roic\<close>. The conditional expression binds weaker
  than \<open>+\<close>: the sum of the two \<open>or 0\<close> terms is its first branch. In the other branch
  'Total Debt' is a number, which \<open>or_zero\<close> hands back as it is.
\<close>

definition roic_total_debt :: "Series \<Rightarrow> pyfloat" where
  "roic_total_debt bal =
     (let total_debt =
            (if isna (series_get bal ''Total Debt'')
             then fadd (or_zero (series_get bal ''Total Debt''))
                       (or_zero (series_get bal ''Long Term Debt''))
             else or_zero (series_get bal ''Total Debt''))
      in if total_debt = NaN
         then fadd (or_zero (series_get bal ''Long Term Debt''))
                   (or_zero (series_get bal ''Current Debt''))
         else total_debt)"

text \<open>The local \<open>nopat\<close>, from an EBIT that is a number.\<close>

definition roic_nopat :: "Series \<Rightarrow> real \<Rightarrow> pyfloat option" where
  "roic_nopat fin e =
     (case roic_tax_rate fin of
        None \<Rightarrow> None
      | Some tax_rate \<Rightarrow> Some (fmul (Fl e) (fsub (Fl 1) tax_rate)))"

text \<open>The body of the \<open>try\<close> once both columns are read.\<close>

definition roic_body :: "Series \<Rightarrow> Series \<Rightarrow> pyfloat option" where
  "roic_body fin bal =
     (let ebit = por (series_get fin ''EBIT'') (series_get fin ''Operating Income'')
      in case ebit of
           None \<Rightarrow> None
         | Some NaN \<Rightarrow> None
         | Some (Fl e) \<Rightarrow>
            (case roic_nopat fin e of
               None \<Rightarrow> None
             | Some nopat \<Rightarrow>
                let total_debt = roic_total_debt bal;
                    total_equity = por (series_get bal ''Total Equity'')
                                       (series_get bal ''Stockholders Equity'')
                in case total_equity of
                     None \<Rightarrow> None
                   | Some NaN \<Rightarrow> None
                   | Some (Fl q) \<Rightarrow>
                      let cash0 = or_zero (por (series_get bal ''Cash And Cash Equivalents'')
                                    (series_get bal ''Cash Cash Equivalents And Short Term Investments''));
                          cash = (if cash0 = NaN then Fl 0 else cash0);
                          invested_capital =
                            fsub (fadd (or_zero (Some total_debt)) (Fl q)) cash
                      in if fle invested_capital (Fl 0) then None
                         else fdiv nopat invested_capital))"

definition calculate_roic :: "MetricsCalculator \<Rightarrow> nat \<Rightarrow> pyfloat option" where
  "calculate_roic self year_offset =
     (case (annual_financials self, annual_balance self) of
        (Some af, Some ab) \<Rightarrow>
          if year_offset \<ge> length (columns af) then None
          else (case (iloc_col af year_offset, iloc_col ab year_offset) of
                  (Some fin, Some bal) \<Rightarrow> roic_body fin bal
                | other \<Rightarrow> None)
      | other \<Rightarrow> None)"

text \<open>
  \<open>calculate_roic_history\<close>: the years still to visit and the history so far; the first
  \<open>None\<close> ends the loop, a NaN does not.
\<close>

fun roic_history_loop :: "MetricsCalculator \<Rightarrow> nat list \<Rightarrow> pyfloat list \<Rightarrow> pyfloat list" where
  "roic_history_loop self [] history = history"
| "roic_history_loop self (i # rest) history =
     (case calculate_roic self i of
        None \<Rightarrow> history
      | Some r \<Rightarrow> roic_history_loop self rest (history @ [r]))"

definition calculate_roic_history :: "MetricsCalculator \<Rightarrow> nat \<Rightarrow> pyfloat list" where
  "calculate_roic_history self years = roic_history_loop self [0 ..< years] []"

text \<open>The sibling derivation of total debt, in \<open>calculate_debt_to_equity\<close>.\<close>

definition calculate_debt_to_equity :: "MetricsCalculator \<Rightarrow> pyfloat option" where
  "calculate_debt_to_equity self =
     (case annual_balance self of
        None \<Rightarrow> None
      | Some ab \<Rightarrow>
          if df_empty ab then None
          else (case iloc_col ab 0 of
                  None \<Rightarrow> None
                | Some bal \<Rightarrow>
                    let total_debt0 = series_get bal ''Total Debt'';
                        total_debt =
                          (if isna total_debt0
                           then fadd (or_zero (series_get bal ''Long Term Debt''))
                                     (or_zero (series_get bal ''Current Debt''))
                           else or_zero total_debt0);
                        total_equity = por (series_get bal ''Total Equity'')
                                           (series_get bal ''Stockholders Equity'')
                    in case total_equity of
                         None \<Rightarrow> None
                       | Some NaN \<Rightarrow> None
                       | Some (Fl q) \<Rightarrow>
                           if q \<le> 0 then None
                           else fdiv (if total_debt = NaN then Fl 0 else total_debt) (Fl q)))"

definition calculate_cf_yield :: "MetricsCalculator \<Rightarrow> real option" where
  "calculate_cf_yield self =
     (case (get_ttm_fcf (ttm self), get_ttm_revenue (ttm self)) of
        (Some fcf, Some revenue) \<Rightarrow> if revenue \<le> 0 then None else Some (fcf / revenue)
      | other \<Rightarrow> None)"

text \<open>
  The two ROIC fields of the metrics as \<open>calculate_all\<close> fills them:
  \<open>roic = roic_history[0] if roic_history else None\<close>.
\<close>

definition first_roic :: "pyfloat list \<Rightarrow> pyfloat option" where
  "first_roic history = (case history of [] \<Rightarrow> None | r # rest \<Rightarrow> Some r)"

section \<open>Filters (filters.py, config.py)\<close>

record ScreeningThresholds =
  max_pe :: real
  min_roic :: real
  roic_years :: int
  growth_years :: int
  max_debt_to_equity :: real
  min_cf_yield :: real

definition default_thresholds :: ScreeningThresholds where
  "default_thresholds =
     \<lparr>max_pe = 15, min_roic = 1/10, roic_years = 3, growth_years = 3,
      max_debt_to_equity = 1, min_cf_yield = 5/100\<rparr>"

text \<open>
  The metrics are floats or \<open>None\<close>. \<open>calculate_all\<close> fills \<open>roic_history\<close> with what
  \<open>calculate_roic\<close> returns and \<open>roic\<close> with its first entry, and \<open>calculate_roic\<close>
  can return NaN: these two fields keep the NaN. The derivations of the other metrics
  sum cells after \<open>dropna\<close>, replace a NaN debt by 0 and reject a NaN equity, so they
  give numbers.
\<close>

record FinancialMetrics =
  ticker :: string
  name :: string
  exchange :: string
  sector :: "string option"
  industry :: "string option"
  pe_ratio :: "real option"
  market_cap :: "real option"
  roic :: "pyfloat option"
  roic_history :: "pyfloat list option"
  revenue_growth_years :: "int option"
  earnings_growth_years :: "int option"
  debt_to_equity :: "real option"
  free_cash_flow :: "real option"
  cf_yield :: "real option"
  ttm_revenue :: "real option"
  ttm_earnings :: "real option"
  has_positive_earnings :: bool
  data_complete :: bool

text \<open>
  A result carries the value its filter compared; the ROIC filter copies \<open>metrics.roic\<close>
  there, so the value is a float that may be NaN. A reason is an f-string. Its pieces are kept apart, so that the number a piece prints
  can be read off without modelling the decimal rendering: a literal, a float printed
  with a fixed number of decimals (\<open>{x:.1f}\<close>), a float printed as is, an integer.
\<close>

datatype frag = Lit string | Fixed nat real | Plain real | IntNum int

record FilterResult =
  passed :: bool
  reason :: "frag list"
  fvalue :: "pyfloat option"
  threshold :: "real option"

record StockFilters =
  industry_averages :: IndustryAverages
  thresholds :: ScreeningThresholds

text \<open>
  \<open>filter_pe_below_industry\<close> reads the shared pool, whose lazy recomputation may
  change it: it returns the filters object as it leaves it.
\<close>

definition filter_pe_below_industry ::
  "StockFilters \<Rightarrow> FinancialMetrics \<Rightarrow> FilterResult \<times> StockFilters" where
  "filter_pe_below_industry self m =
     (case pe_ratio m of
        None \<Rightarrow>
          (\<lparr>passed = False, reason = [Lit ''PE ratio not available''],
            fvalue = None, threshold = None\<rparr>, self)
      | Some pe \<Rightarrow>
          (case get_peer_average (industry_averages self) (industry m) (sector m) of
             (peer, pool) \<Rightarrow>
               let peer_avg = (case peer of None \<Rightarrow> 20 | Some a \<Rightarrow> a);
                   ok = pe < peer_avg
               in (\<lparr>passed = ok,
                    reason = [Lit ''PE '', Fixed 1 pe, Lit '' '',
                              Lit (if ok then ''<'' else ''>=''),
                              Lit '' industry avg '', Fixed 1 peer_avg],
                    fvalue = Some (Fl pe), threshold = Some peer_avg\<rparr>,
                   self\<lparr>industry_averages := pool\<rparr>)))"

definition filter_roic_consistent :: "StockFilters \<Rightarrow> FinancialMetrics \<Rightarrow> FilterResult" where
  "filter_roic_consistent self m =
     (let min_r = min_roic (thresholds self);
          required_years = roic_years (thresholds self)
      in case roic_history m of
           None \<Rightarrow> \<lparr>passed = False, reason = [Lit ''ROIC history not available''],
                    fvalue = None, threshold = None\<rparr>
         | Some history \<Rightarrow>
             if history = []
             then \<lparr>passed = False, reason = [Lit ''ROIC history not available''],
                   fvalue = None, threshold = None\<rparr>
             else
               let years_above = int (length (filter (\<lambda>r. fle (Fl min_r) r) history));
                   ok = years_above \<ge> required_years
               in \<lparr>passed = ok,
                   reason = [Lit ''ROIC>'', Fixed 0 (min_r * 100), Lit ''% for '',
                             IntNum years_above, Lit ''/'', IntNum required_years,
                             Lit '' years''],
                   fvalue = roic m, threshold = Some min_r\<rparr>)"

definition filter_revenue_growth ::
  "StockFilters \<Rightarrow> FinancialMetrics \<Rightarrow> int option \<Rightarrow> FilterResult" where
  "filter_revenue_growth self m growth =
     (let required_years = growth_years (thresholds self)
      in case growth of
           None \<Rightarrow> \<lparr>passed = False, reason = [Lit ''Revenue growth data not available''],
                    fvalue = None, threshold = None\<rparr>
         | Some g \<Rightarrow>
             let ok = g \<ge> required_years
             in \<lparr>passed = ok,
                 reason = [Lit ''Revenue growth: '', IntNum g, Lit ''/'',
                           IntNum required_years, Lit '' consecutive years''],
                 fvalue = Some (Fl (real_of_int g)), threshold = Some (real_of_int required_years)\<rparr>)"

definition filter_earnings_growth ::
  "StockFilters \<Rightarrow> FinancialMetrics \<Rightarrow> int option \<Rightarrow> FilterResult" where
  "filter_earnings_growth self m growth =
     (let required_years = growth_years (thresholds self)
      in case growth of
           None \<Rightarrow> \<lparr>passed = False, reason = [Lit ''Earnings growth data not available''],
                    fvalue = None, threshold = None\<rparr>
         | Some g \<Rightarrow>
             let ok = g \<ge> required_years
             in \<lparr>passed = ok,
                 reason = [Lit ''Earnings growth: '', IntNum g, Lit ''/'',
                           IntNum required_years, Lit '' consecutive years''],
                 fvalue = Some (Fl (real_of_int g)), threshold = Some (real_of_int required_years)\<rparr>)"

definition filter_debt_to_equity :: "StockFilters \<Rightarrow> FinancialMetrics \<Rightarrow> FilterResult" where
  "filter_debt_to_equity self m =
     (let max_de = max_debt_to_equity (thresholds self)
      in case debt_to_equity m of
           None \<Rightarrow> \<lparr>passed = False, reason = [Lit ''D/E ratio not available''],
                    fvalue = None, threshold = None\<rparr>
         | Some de \<Rightarrow>
             let ok = de < max_de
             in \<lparr>passed = ok,
                 reason = [Lit ''D/E '', Fixed 2 de, Lit '' '',
                           Lit (if ok then ''<'' else ''>=''), Lit '' '', Plain max_de],
                 fvalue = Some (Fl de), threshold = Some max_de\<rparr>)"

definition filter_positive_fcf :: "StockFilters \<Rightarrow> FinancialMetrics \<Rightarrow> FilterResult" where
  "filter_positive_fcf self m =
     (case free_cash_flow m of
        None \<Rightarrow> \<lparr>passed = False, reason = [Lit ''FCF not available''],
                 fvalue = None, threshold = None\<rparr>
      | Some fcf \<Rightarrow>
          let ok = fcf > 0;
              fcf_m = fcf / 1000000
          in \<lparr>passed = ok,
              reason = [Lit ''FCF: '', Fixed 1 fcf_m, Lit ''M '',
                        Lit (if ok then ''(positive)'' else ''(negative)'')],
              fvalue = Some (Fl fcf), threshold = Some 0\<rparr>)"

definition filter_cf_yield :: "StockFilters \<Rightarrow> FinancialMetrics \<Rightarrow> FilterResult" where
  "filter_cf_yield self m =
     (let min_yield = min_cf_yield (thresholds self)
      in case cf_yield m of
           None \<Rightarrow> \<lparr>passed = False, reason = [Lit ''CF yield not available''],
                    fvalue = None, threshold = None\<rparr>
         | Some y \<Rightarrow>
             let ok = y \<ge> min_yield
             in \<lparr>passed = ok,
                 reason = [Lit ''CF yield '', Fixed 1 (y * 100), Lit ''% '',
                           Lit (if ok then ''>='' else ''<''), Lit '' '',
                           Fixed 0 (min_yield * 100), Lit ''%''],
                 fvalue = Some (Fl y), threshold = Some min_yield\<rparr>)"

definition filter_positive_earnings :: "StockFilters \<Rightarrow> FinancialMetrics \<Rightarrow> FilterResult" where
  "filter_positive_earnings self m =
     (let ok = has_positive_earnings m;
          earnings_m = (case or_else (ttm_earnings m) (Some 0) of None \<Rightarrow> 0 | Some e \<Rightarrow> e) / 1000000
      in \<lparr>passed = ok,
          reason = [Lit ''TTM Earnings: '', Fixed 1 earnings_m, Lit ''M '',
                    Lit (if ok then ''(profitable)'' else ''(loss-maker)'')],
          fvalue = map_option Fl (ttm_earnings m), threshold = Some 0\<rparr>)"

text \<open>
  How \<open>calculate_all\<close> sets the flag the last filter reads:
  \<open>has_positive_earnings = (ttm_earnings is not None and ttm_earnings > 0)\<close>.
\<close>

definition earnings_flag :: "real option \<Rightarrow> bool" where
  "earnings_flag e = (case e of None \<Rightarrow> False | Some v \<Rightarrow> v > 0)"

section \<open>Screening and scoring (screener.py)\<close>

record ScreeningResult =
  metrics :: FinancialMetrics
  passed_all :: bool
  filter_results :: "(string \<times> FilterResult) list"
  score :: pyfloat

text \<open>
  \<open>growth_data\<close> is the dict of \<open>has_consistent_growth\<close>; the two entries read here are
  its integer year counts. \<open>d.get(k, 0)\<close> is \<open>get_or_zero\<close>.
\<close>

definition get_or_zero :: "(string \<times> int) list \<Rightarrow> string \<Rightarrow> int" where
  "get_or_zero d k = (case map_of d k of None \<Rightarrow> 0 | Some v \<Rightarrow> v)"

text \<open>Division of a float by a number the caller has tested to be non-zero.\<close>

fun fdiv_by :: "pyfloat \<Rightarrow> real \<Rightarrow> pyfloat" where
  "fdiv_by (Fl a) b = Fl (a / b)"
| "fdiv_by NaN b = NaN"

text \<open>
  The score is a float: the ROIC and the value of the PE result may be NaN, and the
  builtins \<open>min\<close> and \<open>max\<close> and the additions treat it as Python does.
\<close>

definition calculate_score ::
  "FinancialMetrics \<Rightarrow> (string \<times> int) list \<Rightarrow> (string \<times> FilterResult) list \<Rightarrow> pyfloat" where
  "calculate_score m growth_data results =
     (let score0 = Fl 0;
          score1 = (case roic m of
                      None \<Rightarrow> score0
                    | Some r \<Rightarrow> fadd score0 (py_min (fmul r (Fl 100)) (Fl 30)));
          score2 = (case map_of results ''pe_below_max'' of
                      None \<Rightarrow> score1
                    | Some pe_result \<Rightarrow>
                        (case (fvalue pe_result, threshold pe_result) of
                           (Some v, Some t) \<Rightarrow>
                             if truthy (Some v) \<and> t \<noteq> 0
                             then let discount = fdiv_by (fsub (Fl t) v) t
                                  in fadd score1
                                       (py_max (Fl 0) (py_min (fmul discount (Fl 40)) (Fl 20)))
                             else score1
                         | other \<Rightarrow> score1));
          score3 = (case cf_yield m of
                      None \<Rightarrow> score2
                    | Some y \<Rightarrow> fadd score2 (Fl (min (y * 100) 20)));
          score4 = (case debt_to_equity m of
                      None \<Rightarrow> score3
                    | Some de \<Rightarrow> fadd score3 (Fl (max 0 (15 - de * 30))));
          rev_years = get_or_zero growth_data ''revenue_growth_years'';
          earn_years = get_or_zero growth_data ''earnings_growth_years'';
          growth_score = min (real_of_int (rev_years + earn_years) * (3/2)) 15
      in fadd score4 (Fl growth_score))"

text \<open>
  Method lookup on the filters object. \<open>self.filters.<name>(...)\<close> first looks the name
  up among the methods the class \<open>StockFilters\<close> defines; a name that is not there
  raises AttributeError. A method takes the metrics, or the metrics and a year count.
\<close>

datatype error = AttributeError string | TypeError string

datatype bound_method =
    Unary "StockFilters \<Rightarrow> FinancialMetrics \<Rightarrow> FilterResult \<times> StockFilters"
  | Binary "StockFilters \<Rightarrow> FinancialMetrics \<Rightarrow> int option \<Rightarrow> FilterResult \<times> StockFilters"

definition StockFilters_methods :: "(string \<times> bound_method) list" where
  "StockFilters_methods =
     [(''filter_pe_below_industry'', Unary filter_pe_below_industry),
      (''filter_roic_consistent'', Unary (\<lambda>self m. (filter_roic_consistent self m, self))),
      (''filter_revenue_growth'', Binary (\<lambda>self m g. (filter_revenue_growth self m g, self))),
      (''filter_earnings_growth'', Binary (\<lambda>self m g. (filter_earnings_growth self m g, self))),
      (''filter_debt_to_equity'', Unary (\<lambda>self m. (filter_debt_to_equity self m, self))),
      (''filter_positive_fcf'', Unary (\<lambda>self m. (filter_positive_fcf self m, self))),
      (''filter_cf_yield'', Unary (\<lambda>self m. (filter_cf_yield self m, self))),
      (''filter_positive_earnings'', Unary (\<lambda>self m. (filter_positive_earnings self m, self)))]"

definition call_unary ::
  "string \<Rightarrow> StockFilters \<Rightarrow> FinancialMetrics \<Rightarrow> error + FilterResult \<times> StockFilters" where
  "call_unary method self m =
     (case map_of StockFilters_methods method of
        None \<Rightarrow> Inl (AttributeError method)
      | Some (Unary f) \<Rightarrow> Inr (f self m)
      | Some (Binary f) \<Rightarrow> Inl (TypeError method))"

definition call_binary ::
  "string \<Rightarrow> StockFilters \<Rightarrow> FinancialMetrics \<Rightarrow> int option
     \<Rightarrow> error + FilterResult \<times> StockFilters" where
  "call_binary method self m g =
     (case map_of StockFilters_methods method of
        None \<Rightarrow> Inl (AttributeError method)
      | Some (Binary f) \<Rightarrow> Inr (f self m g)
      | Some (Unary f) \<Rightarrow> Inl (TypeError method))"

text \<open>Sequencing of statements that may raise: the first exception ends the body.\<close>

definition and_then :: "error + 'a \<Rightarrow> ('a \<Rightarrow> error + 'b) \<Rightarrow> error + 'b" where
  "and_then r k = (case r of Inl e \<Rightarrow> Inl e | Inr v \<Rightarrow> k v)"

definition apply_filters ::
  "StockFilters \<Rightarrow> FinancialMetrics \<Rightarrow> (string \<times> int) list
     \<Rightarrow> error + ScreeningResult \<times> StockFilters" where
  "apply_filters self m growth_data =
     and_then (call_unary ''filter_pe_below_max'' self m) (\<lambda>(r1, s1).
     and_then (call_unary ''filter_roic_consistent'' s1 m) (\<lambda>(r2, s2).
     and_then (call_binary ''filter_revenue_growth'' s2 m
                 (map_of growth_data ''revenue_growth_years'')) (\<lambda>(r3, s3).
     and_then (call_binary ''filter_earnings_growth'' s3 m
                 (map_of growth_data ''earnings_growth_years'')) (\<lambda>(r4, s4).
     and_then (call_unary ''filter_debt_to_equity'' s4 m) (\<lambda>(r5, s5).
     and_then (call_unary ''filter_positive_fcf'' s5 m) (\<lambda>(r6, s6).
     and_then (call_unary ''filter_cf_yield'' s6 m) (\<lambda>(r7, s7).
     and_then (call_unary ''filter_positive_earnings'' s7 m) (\<lambda>(r8, s8).
       let results = [(''pe_below_max'', r1), (''roic_consistent'', r2),
                      (''revenue_growth'', r3), (''earnings_growth'', r4),
                      (''debt_to_equity'', r5), (''positive_fcf'', r6),
                      (''cf_yield'', r7), (''positive_earnings'', r8)];
           all_ok = list_all passed (map snd results);
           total = calculate_score m growth_data results;
           m' = m\<lparr>revenue_growth_years := map_of growth_data ''revenue_growth_years'',
                   earnings_growth_years := map_of growth_data ''earnings_growth_years''\<rparr>
       in Inr (\<lparr>metrics = m', passed_all = all_ok, filter_results = results,
                 score = total\<rparr>, s8)))))))))"

text \<open>
  The loop of \<open>_screen_companies\<close> over the companies' metrics and growth data (the two
  other components of each tuple are not read); it has no \<open>try\<close>.
\<close>

fun screen_loop ::
  "StockFilters \<Rightarrow> (FinancialMetrics \<times> (string \<times> int) list) list \<Rightarrow> ScreeningResult list
     \<Rightarrow> error + ScreeningResult list \<times> StockFilters" where
  "screen_loop self [] results = Inr (results, self)"
| "screen_loop self ((m, growth_data) # rest) results =
     (case apply_filters self m growth_data of
        Inl e \<Rightarrow> Inl e
      | Inr (result, self') \<Rightarrow> screen_loop self' rest (results @ [result]))"

definition screen_companies ::
  "StockFilters \<Rightarrow> (FinancialMetrics \<times> (string \<times> int) list) list
     \<Rightarrow> error + ScreeningResult list \<times> StockFilters" where
  "screen_companies self data = screen_loop self data []"

text \<open>
  The five terms of the score as the contract words them; a ROIC or a value counts as
  known when it is a number. \<open>pe_term_claimed\<close> asks for a value and a non-zero
  threshold, \<open>pe_term\<close> also for a non-zero value.
\<close>

definition clamp :: "real \<Rightarrow> real \<Rightarrow> real \<Rightarrow> real" where
  "clamp x lo hi = max lo (min x hi)"

definition roic_term :: "FinancialMetrics \<Rightarrow> real" where
  "roic_term m = (case roic m of Some (Fl r) \<Rightarrow> min (r * 100) 30 | other \<Rightarrow> 0)"

definition pe_term_claimed :: "(string \<times> FilterResult) list \<Rightarrow> real" where
  "pe_term_claimed results =
     (case map_of results ''pe_below_max'' of
        None \<Rightarrow> 0
      | Some res \<Rightarrow>
          (case (fvalue res, threshold res) of
             (Some (Fl v), Some t) \<Rightarrow> if t \<noteq> 0 then clamp (((t - v) / t) * 40) 0 20 else 0
           | other \<Rightarrow> 0))"

definition pe_term :: "(string \<times> FilterResult) list \<Rightarrow> real" where
  "pe_term results =
     (case map_of results ''pe_below_max'' of
        None \<Rightarrow> 0
      | Some res \<Rightarrow>
          (case (fvalue res, threshold res) of
             (Some (Fl v), Some t) \<Rightarrow>
               if v \<noteq> 0 \<and> t \<noteq> 0 then clamp (((t - v) / t) * 40) 0 20 else 0
           | other \<Rightarrow> 0))"

definition cf_term :: "FinancialMetrics \<Rightarrow> real" where
  "cf_term m = (case cf_yield m of None \<Rightarrow> 0 | Some y \<Rightarrow> min (y * 100) 20)"

definition debt_term :: "FinancialMetrics \<Rightarrow> real" where
  "debt_term m = (case debt_to_equity m of None \<Rightarrow> 0 | Some de \<Rightarrow> max 0 (15 - de * 30))"

definition growth_term :: "(string \<times> int) list \<Rightarrow> real" where
  "growth_term growth_data =
     min (real_of_int (get_or_zero growth_data ''revenue_growth_years''
                       + get_or_zero growth_data ''earnings_growth_years'') * (3/2)) 15"

definition claimed_score ::
  "FinancialMetrics \<Rightarrow> (string \<times> int) list \<Rightarrow> (string \<times> FilterResult) list \<Rightarrow> real" where
  "claimed_score m growth_data results =
     roic_term m + pe_term_claimed results + cf_term m + debt_term m + growth_term growth_data"

section \<open>The contract's tax rate and total debt\<close>

text \<open>
  The tax rate and the total debt as the contract words them. A read is known when it
  is a number. The tax provision is 'Tax Provision', or 'Income Tax Expense' when the
  former is not known. The rate is \<open>|tax provision| / pretax income\<close> clamped to
  \<open>[0, 0.5]\<close> when both are known and pretax income is positive, else 0.25. Total debt is
  'Total Debt' when known, else 'Long Term Debt' plus 'Current Debt', a component that
  is not known counting 0.
\<close>

fun known :: "pyfloat option \<Rightarrow> real option" where
  "known (Some (Fl v)) = Some v"
| "known other = None"

definition claimed_tax_rate :: "Series \<Rightarrow> real" where
  "claimed_tax_rate fin =
     (let provision = (case known (series_get fin ''Tax Provision'') of
                         Some t \<Rightarrow> Some t
                       | None \<Rightarrow> known (series_get fin ''Income Tax Expense''))
      in case (known (series_get fin ''Pretax Income''), provision) of
           (Some p, Some t) \<Rightarrow> if 0 < p then clamp (\<bar>t\<bar> / p) 0 (1/2) else 1/4
         | other \<Rightarrow> 1/4)"

definition claimed_total_debt :: "Series \<Rightarrow> real" where
  "claimed_total_debt bal =
     (case known (series_get bal ''Total Debt'') of
        Some d \<Rightarrow> d
      | None \<Rightarrow>
          (case known (series_get bal ''Long Term Debt'') of None \<Rightarrow> 0 | Some v \<Rightarrow> v)
          + (case known (series_get bal ''Current Debt'') of None \<Rightarrow> 0 | Some v \<Rightarrow> v))"

section \<open>Invariant of the pool\<close>

text \<open>
  What holds of one pool and its average dict after any run, \<open>pooled label\<close> being the
  PEs the run has pooled under a label: the pool has one entry per label, holding exactly
  those PEs; once the averages are calculated, the dict holds the median of every
  bucket; and the dict never has a label the pool lacks.
\<close>

definition settled :: "IndustryAverages \<Rightarrow> IndustryAverages" where
  "settled self = (if \<not> averages_calculated self then calculate_averages self else self)"

definition bucket_of :: "(string \<Rightarrow> real list) \<Rightarrow> string \<Rightarrow> real list option" where
  "bucket_of pooled label = (if pooled label = [] then None else Some (pooled label))"

definition pool_good ::
  "(string \<times> real list) list \<Rightarrow> (string \<times> real) list \<Rightarrow> bool \<Rightarrow> (string \<Rightarrow> real list) \<Rightarrow> bool" where
  "pool_good pool avg calculated pooled =
     (distinct (map fst pool)
      \<and> (\<forall>label. map_of pool label = bucket_of pooled label)
      \<and> (calculated \<longrightarrow>
           (\<forall>label. map_of avg label = map_option bucket_median (bucket_of pooled label)))
      \<and> (\<forall>label. map_of avg label \<noteq> None \<longrightarrow> pooled label \<noteq> []))"

definition pool_inv :: "pool_call list \<Rightarrow> IndustryAverages \<Rightarrow> bool" where
  "pool_inv calls self =
     (pool_good (pe_by_industry self) (industry_avg self) (averages_calculated self)
        (\<lambda>label. pooled_industry label calls)
      \<and> pool_good (pe_by_sector self) (sector_avg self) (averages_calculated self)
        (\<lambda>label. pooled_sector label calls))"

section \<open>Concrete inputs\<close>

text \<open>
  \<open>pd.DataFrame(data)\<close> on the fetched dict of one statement, its periods already in the
  order of the frame: one dict of line items per period; the row labels are the line
  items any period reports, and an item a period lacks is NaN there.
\<close>

definition frame_of_periods :: "(string \<times> real) list list \<Rightarrow> DataFrame" where
  "frame_of_periods periods =
     \<lparr>index = remdups (concat (map (map fst) periods)), columns = map map_of periods\<rparr>"

definition periods_of :: "string \<Rightarrow> real option list \<Rightarrow> DataFrame" where
  "periods_of field cells =
     frame_of_periods
       (map (\<lambda>cell. case cell of None \<Rightarrow> [(''Other'', 1)] | Some v \<Rightarrow> [(field, v)]) cells)"

definition growth_example :: "real list \<Rightarrow> GrowthAnalyzer" where
  "growth_example vs =
     \<lparr>ga_annual_financials = Some (periods_of ''Total Revenue'' (map Some vs))\<rparr>"

definition ttm_of_financials :: "(string \<times> real) list list \<Rightarrow> TTMCalculator" where
  "ttm_of_financials periods =
     \<lparr>quarterly_financials = Some (frame_of_periods periods),
      quarterly_cashflow = None, quarterly_balance = None\<rparr>"

definition ttm_of_cashflow :: "(string \<times> real) list list \<Rightarrow> TTMCalculator" where
  "ttm_of_cashflow periods =
     \<lparr>quarterly_financials = None,
      quarterly_cashflow = Some (frame_of_periods periods), quarterly_balance = None\<rparr>"

text \<open>
  A run of the pool: four accepted PEs of one industry and sector, a read in between,
  and three rejected PEs (zero, above 200, unknown).
\<close>

definition pool_example :: "pool_call list" where
  "pool_example =
     [AddCompany (Some ''Software'') (Some ''Technology'') (Some 20),
      AddCompany (Some ''Software'') (Some ''Technology'') (Some 8),
      GetPeerAverage (Some ''Software'') (Some ''Technology''),
      AddCompany (Some ''Software'') (Some ''Technology'') (Some 15),
      AddCompany (Some ''Software'') (Some ''Technology'') (Some 0),
      AddCompany (Some ''Software'') (Some ''Technology'') (Some 250),
      AddCompany (Some ''Software'') (Some ''Technology'') None,
      AddCompany (Some ''Software'') (Some ''Technology'') (Some 12)]"

text \<open>
  A calculator over annual income statements and balance sheets (most recent first),
  and the column of one period within the frame of all periods.
\<close>

definition calculator_of ::
  "(string \<times> real) list list \<Rightarrow> (string \<times> real) list list \<Rightarrow> MetricsCalculator" where
  "calculator_of income balance =
     \<lparr>ttm = \<lparr>quarterly_financials = None, quarterly_cashflow = None, quarterly_balance = None\<rparr>,
      annual_financials = Some (frame_of_periods income),
      annual_balance = Some (frame_of_periods balance),
      annual_cashflow = None\<rparr>"

text \<open>
  Two annual periods of which only the older reports a tax provision: the provision of
  the recent period is NaN.
\<close>

definition nan_roic_calculator :: MetricsCalculator where
  "nan_roic_calculator =
     calculator_of
       [[(''EBIT'', 30), (''Pretax Income'', 100)],
        [(''EBIT'', 20), (''Pretax Income'', 90), (''Tax Provision'', 20)]]
       [[(''Total Equity'', 100)], [(''Total Equity'', 90)]]"

definition period_series :: "(string \<times> real) list list \<Rightarrow> (string \<times> real) list \<Rightarrow> Series" where
  "period_series periods period = (index (frame_of_periods periods), map_of period)"

text \<open>
  Metrics with every derived value unknown, as \<open>calculate_all\<close> builds them from a bundle
  without statement data; a filters object over a fresh pool and the default thresholds;
  the metrics of the worked example of the specification (PE 10, ROIC 12 percent over
  three years, D/E 0.5, CF yield 6 percent) and their PE result against a peer average
  of 20.
\<close>

definition unknown_metrics :: FinancialMetrics where
  "unknown_metrics =
     \<lparr>ticker = ''ABC.OL'', name = ''ABC'', exchange = ''oslo'', sector = None, industry = None,
      pe_ratio = None, market_cap = None, roic = None, roic_history = Some [],
      revenue_growth_years = None, earnings_growth_years = None, debt_to_equity = None,
      free_cash_flow = None, cf_yield = None, ttm_revenue = None, ttm_earnings = None,
      has_positive_earnings = False, data_complete = False\<rparr>"

definition example_filters :: StockFilters where
  "example_filters =
     \<lparr>industry_averages = IndustryAverages_init, thresholds = default_thresholds\<rparr>"

definition example_metrics :: FinancialMetrics where
  "example_metrics =
     unknown_metrics\<lparr>pe_ratio := Some 10, roic := Some (Fl (12/100)),
       roic_history := Some [Fl (12/100), Fl (12/100), Fl (12/100)], debt_to_equity := Some (1/2),
       free_cash_flow := Some 5000000, cf_yield := Some (6/100), ttm_earnings := Some 4000000,
       has_positive_earnings := True\<rparr>"

definition pe_result_of :: "real \<Rightarrow> real \<Rightarrow> (string \<times> FilterResult) list" where
  "pe_result_of v t =
     [(''pe_below_max'',
       \<lparr>passed = v < t, reason = [], fvalue = Some (Fl v), threshold = Some t\<rparr>)]"

section \<open>Facts about frames\<close>

lemma length_dropna_le: "length (dropna xs) \<le> length xs"
  by (induction xs rule: dropna.induct) auto

lemma dropna_full_iff: "length (dropna xs) = length xs \<longleftrightarrow> None \<notin> set xs"
proof (induction xs rule: dropna.induct)
  case (2 xs)
  have "length (dropna xs) \<le> length xs" by (rule length_dropna_le)
  then show ?case by auto
qed auto

lemma dropna_short_iff: "length (dropna xs) < length xs \<longleftrightarrow> None \<in> set xs"
  using length_dropna_le [of xs] dropna_full_iff [of xs] by linarith

lemma sum_dropna:
  "sum_list (dropna (map (\<lambda>c. c field) cs)) =
     (\<Sum>c \<leftarrow> cs. (case c field of None \<Rightarrow> 0 | Some v \<Rightarrow> v))"
  by (induction cs) (auto split: option.splits)

lemma sum_quarters_char:
  "sum_quarters df field n =
     (if has_periods df n \<and> present_in_recent df field n
      then Some (recent_sum df field n) else None)"
proof (cases df)
  case None
  then show ?thesis
    by (simp add: sum_quarters_def get_last_n_quarters_def has_periods_def)
next
  case (Some d)
  show ?thesis
  proof (cases "df_empty d \<or> length (columns d) < n")
    case True
    with Some show ?thesis
      by (auto simp: sum_quarters_def get_last_n_quarters_def has_periods_def)
  next
    case False
    let ?row = "map (\<lambda>c. c field) (take n (columns d))"
    from False have len: "length ?row = n" by simp
    have short: "length (dropna ?row) < n \<longleftrightarrow> None \<in> set ?row"
      by (metis dropna_short_iff len)
    have all: "None \<notin> set ?row \<longleftrightarrow> (\<forall>c \<in> set (take n (columns d)). c field \<noteq> None)"
      by (auto simp: image_iff) (metis not_None_eq)
    from False Some short all show ?thesis
      by (auto simp: sum_quarters_def get_last_n_quarters_def has_periods_def
          present_in_recent_def present_in_def recent_sum_def iloc_first_def loc_def
          sum_dropna Let_def)
  qed
qed

section \<open>Facts about growth streaks\<close>

lemma growth_loop_from:
  "growth_loop vals [i ..< length vals - 1] c =
     c + length (takeWhile grows (drop i (zip vals (tl vals))))"
proof (induction "length vals - 1 - i" arbitrary: i c)
  case 0
  then show ?case by simp
next
  case (Suc k)
  let ?ps = "zip vals (tl vals)"
  from Suc.hyps(2) have lt: "i < length vals - 1" by linarith
  then have len: "i < length ?ps" by simp
  have step: "?ps ! i = (vals ! i, vals ! (i + 1))"
    using lt by (simp add: nth_tl)
  have k: "k = length vals - 1 - Suc i" using Suc.hyps(2) by linarith
  have upt: "[i ..< length vals - 1] = i # [Suc i ..< length vals - 1]"
    using lt by (simp add: upt_conv_Cons)
  have drp: "drop i ?ps = ?ps ! i # drop (Suc i) ?ps"
    by (rule Cons_nth_drop_Suc [OF len, symmetric])
  show ?case
    unfolding upt drp
    using Suc.hyps(1) [OF k] step by (simp add: grows_def Let_def)
qed

lemma streak_short: "length xs < 2 \<Longrightarrow> streak xs = 0"
  by (cases xs) (auto simp: streak_def)

lemma count_is_streak:
  "count_consecutive_growth_years self field = streak (rev (observed self field))"
proof (cases "get_metric_series self field")
  case None
  then have "observed self field = []"
    by (auto simp: get_metric_series_def observed_def Let_def split: option.splits if_splits)
  with None show ?thesis
    by (simp add: count_consecutive_growth_years_def streak_def)
next
  case (Some series)
  then have obs: "observed self field = series"
    by (auto simp: get_metric_series_def observed_def Let_def split: option.splits if_splits)
  show ?thesis
  proof (cases "length series < 2")
    case True
    then have "streak (rev series) = 0"
      by (intro streak_short) simp
    with Some True obs show ?thesis
      by (simp add: count_consecutive_growth_years_def)
  next
    case False
    with Some obs show ?thesis
      using growth_loop_from [of "rev series" 0 0]
      by (simp add: count_consecutive_growth_years_def streak_def Let_def)
  qed
qed

section \<open>Facts about the pool and its medians\<close>

lemma bucket_median_is_median: "bucket_median pes = median pes"
proof -
  let ?n = "length pes"
  show ?thesis
  proof (cases "?n mod 2 = 0")
    case True
    then have "(?n - 1) div 2 = ?n div 2 - 1" by presburger
    with True show ?thesis by (simp add: bucket_median_def median_def Let_def)
  next
    case False
    then have "(?n - 1) div 2 = ?n div 2" by presburger
    with False show ?thesis by (simp add: bucket_median_def median_def Let_def)
  qed
qed

lemma collapse_map_of:
  "distinct (map fst pool) \<Longrightarrow>
   map_of (collapse pool avg) label =
     (case map_of pool label of
        Some pes \<Rightarrow> if pes \<noteq> [] then Some (bucket_median pes) else map_of avg label
      | None \<Rightarrow> map_of avg label)"
proof (induction pool arbitrary: avg)
  case Nil
  then show ?case by (simp add: collapse_def)
next
  case (Cons kv pool)
  obtain k pes where kv: "kv = (k, pes)" by (cases kv)
  from Cons.prems kv have d: "distinct (map fst pool)" and nk: "map_of pool k = None"
    by (auto simp: map_of_eq_None_iff)
  let ?avg = "if pes \<noteq> [] then AList.update k (bucket_median pes) avg else avg"
  have unfold: "collapse (kv # pool) avg = collapse pool ?avg"
    by (simp add: collapse_def kv)
  show ?case
    unfolding unfold Cons.IH [OF d]
    using nk by (auto simp: kv update_conv' split: option.splits)
qed

lemma settled_calculated: "averages_calculated (settled s)"
  by (simp add: settled_def calculate_averages_def)

lemma settled_idem: "settled (settled s) = settled s"
  using settled_calculated [of s] by (simp add: settled_def [of "settled s"])

lemma get_industry_average_eq:
  "get_industry_average s ind_label =
     ((case ind_label of None \<Rightarrow> None
       | Some i \<Rightarrow> if i = [] then None else map_of (industry_avg (settled s)) i), settled s)"
  by (simp add: get_industry_average_def settled_def Let_def split: option.splits)

lemma get_sector_average_eq:
  "get_sector_average s sec_label =
     ((case sec_label of None \<Rightarrow> None
       | Some i \<Rightarrow> if i = [] then None else map_of (sector_avg (settled s)) i), settled s)"
  by (simp add: get_sector_average_def settled_def Let_def split: option.splits)

lemma snd_get_peer_average: "snd (get_peer_average s ind_label sec_label) = settled s"
  by (simp add: get_peer_average_def get_industry_average_eq get_sector_average_eq settled_idem
      split: option.splits)

lemma get_peer_average_settled:
  "get_peer_average (settled s) ind_label sec_label = get_peer_average s ind_label sec_label"
  by (simp add: get_peer_average_def get_industry_average_eq get_sector_average_eq settled_idem
      split: option.splits)

lemma pool_good_calculated:
  assumes "pool_good pool avg calculated pooled"
  shows "pool_good pool (if calculated then avg else collapse pool avg) True pooled"
proof (cases calculated)
  case True
  with assms show ?thesis by (simp add: pool_good_def)
next
  case False
  from assms have d: "distinct (map fst pool)"
    and b: "\<And>label. map_of pool label = bucket_of pooled label"
    and a: "\<And>label. pooled label = [] \<Longrightarrow> map_of avg label = None"
    by (auto simp: pool_good_def)
  have m: "map_of (collapse pool avg) label = map_option bucket_median (bucket_of pooled label)"
    for label
    by (simp add: collapse_map_of [OF d] b bucket_of_def a)
  have "\<forall>label. map_of (collapse pool avg) label \<noteq> None \<longrightarrow> pooled label \<noteq> []"
    by (simp add: m bucket_of_def)
  with False d b m show ?thesis
    by (simp add: pool_good_def)
qed

lemma pool_good_append:
  assumes "pool_good pool avg calculated pooled"
  shows "pool_good (bucket_append pool k p) avg False
           (\<lambda>label. pooled label @ (if label = k then [p] else []))"
proof -
  from assms have d: "distinct (map fst pool)"
    and b: "\<And>label. map_of pool label = bucket_of pooled label"
    and a: "\<forall>label. map_of avg label \<noteq> None \<longrightarrow> pooled label \<noteq> []"
    by (auto simp: pool_good_def)
  have old: "(case map_of pool k of None \<Rightarrow> [] | Some pes \<Rightarrow> pes) = pooled k"
    by (simp add: b bucket_of_def)
  have d': "distinct (map fst (bucket_append pool k p))"
    by (simp add: bucket_append_def distinct_update d)
  have b': "map_of (bucket_append pool k p) label =
      bucket_of (\<lambda>label. pooled label @ (if label = k then [p] else [])) label" for label
    by (simp add: bucket_append_def old update_conv' b bucket_of_def)
  from a have a': "\<forall>label. map_of avg label \<noteq> None \<longrightarrow>
      pooled label @ (if label = k then [p] else []) \<noteq> []"
    by simp
  from d' b' a' show ?thesis
    by (simp add: pool_good_def)
qed

lemma pool_good_dirty:
  "pool_good pool avg calculated pooled \<Longrightarrow> pool_good pool avg False pooled"
  unfolding pool_good_def by blast

lemma pool_inv_settled: "pool_inv calls s \<Longrightarrow> pool_inv calls (settled s)"
proof (cases "averages_calculated s")
  case True
  assume "pool_inv calls s"
  with True show ?thesis by (simp add: settled_def)
next
  case False
  assume inv: "pool_inv calls s"
  from inv have gi: "pool_good (pe_by_industry s) (industry_avg s) (averages_calculated s)
        (\<lambda>label. pooled_industry label calls)"
    and gs: "pool_good (pe_by_sector s) (sector_avg s) (averages_calculated s)
        (\<lambda>label. pooled_sector label calls)"
    by (simp_all add: pool_inv_def)
  from pool_good_calculated [OF gi] pool_good_calculated [OF gs] False
  show ?thesis
    by (simp add: pool_inv_def settled_def calculate_averages_def)
qed

lemma pooled_industry_snoc:
  "pooled_industry label (calls @ [c]) = pooled_industry label calls @ industry_entry label c"
  by (simp add: pooled_industry_def)

lemma pooled_sector_snoc:
  "pooled_sector label (calls @ [c]) = pooled_sector label calls @ sector_entry label c"
  by (simp add: pooled_sector_def)

lemma pool_inv_read:
  assumes "pool_inv calls s" and "\<And>label. industry_entry label c = []"
    and "\<And>label. sector_entry label c = []"
  shows "pool_inv (calls @ [c]) (settled s)"
  using pool_inv_settled [OF assms(1)] assms(2,3)
  by (simp add: pool_inv_def pooled_industry_snoc pooled_sector_snoc)


lemma pool_good_cong:
  assumes "pool_good pool avg calculated pooled" and "\<And>label. pooled label = pooled' label"
  shows "pool_good pool avg calculated pooled'"
proof -
  have "pooled = pooled'" by (rule ext) (rule assms(2))
  with assms(1) show ?thesis by simp
qed

lemma add_company_rejected: "\<not> pe_accepted pe \<Longrightarrow> add_company s i se pe = s"
  by (auto simp: add_company_def pe_accepted_def split: option.splits)

lemma add_company_fields:
  assumes "pe_accepted (Some p)"
  shows "pe_by_industry (add_company s i se (Some p)) =
           (case i of None \<Rightarrow> pe_by_industry s
            | Some l \<Rightarrow> if l = [] then pe_by_industry s
                        else bucket_append (pe_by_industry s) l p)"
    and "pe_by_sector (add_company s i se (Some p)) =
           (case se of None \<Rightarrow> pe_by_sector s
            | Some l \<Rightarrow> if l = [] then pe_by_sector s
                        else bucket_append (pe_by_sector s) l p)"
    and "industry_avg (add_company s i se (Some p)) = industry_avg s"
    and "sector_avg (add_company s i se (Some p)) = sector_avg s"
    and "averages_calculated (add_company s i se (Some p)) = False"
  using assms
  by (simp_all add: add_company_def pe_accepted_def Let_def split: option.splits)

lemma pool_good_industry_add:
  assumes g: "pool_good pool avg c (\<lambda>label. pooled_industry label calls)"
    and acc: "pe_accepted (Some p)"
  shows "pool_good
           (case i of None \<Rightarrow> pool | Some l \<Rightarrow> if l = [] then pool else bucket_append pool l p)
           avg False (\<lambda>label. pooled_industry label (calls @ [AddCompany i se (Some p)]))"
proof (cases "\<exists>l. i = Some l \<and> l \<noteq> []")
  case True
  then obtain l where l: "i = Some l" "l \<noteq> []" by blast
  have "pool_good (bucket_append pool l p) avg False
          (\<lambda>label. pooled_industry label calls @ (if label = l then [p] else []))"
    by (rule pool_good_append [OF g])
  then have "pool_good (bucket_append pool l p) avg False
          (\<lambda>label. pooled_industry label (calls @ [AddCompany i se (Some p)]))"
    by (rule pool_good_cong) (use l acc in \<open>auto simp: pooled_industry_snoc\<close>)
  with l show ?thesis by simp
next
  case False
  have "pool_good pool avg False (\<lambda>label. pooled_industry label calls)"
    by (rule pool_good_dirty [OF g])
  then have "pool_good pool avg False
          (\<lambda>label. pooled_industry label (calls @ [AddCompany i se (Some p)]))"
    by (rule pool_good_cong) (use False in \<open>cases i; auto simp: pooled_industry_snoc\<close>)
  with False show ?thesis by (cases i) auto
qed

lemma pool_good_sector_add:
  assumes g: "pool_good pool avg c (\<lambda>label. pooled_sector label calls)"
    and acc: "pe_accepted (Some p)"
  shows "pool_good
           (case se of None \<Rightarrow> pool | Some l \<Rightarrow> if l = [] then pool else bucket_append pool l p)
           avg False (\<lambda>label. pooled_sector label (calls @ [AddCompany i se (Some p)]))"
proof (cases "\<exists>l. se = Some l \<and> l \<noteq> []")
  case True
  then obtain l where l: "se = Some l" "l \<noteq> []" by blast
  have "pool_good (bucket_append pool l p) avg False
          (\<lambda>label. pooled_sector label calls @ (if label = l then [p] else []))"
    by (rule pool_good_append [OF g])
  then have "pool_good (bucket_append pool l p) avg False
          (\<lambda>label. pooled_sector label (calls @ [AddCompany i se (Some p)]))"
    by (rule pool_good_cong) (use l acc in \<open>cases i; auto simp: pooled_sector_snoc\<close>)
  with l show ?thesis by simp
next
  case False
  have "pool_good pool avg False (\<lambda>label. pooled_sector label calls)"
    by (rule pool_good_dirty [OF g])
  then have "pool_good pool avg False
          (\<lambda>label. pooled_sector label (calls @ [AddCompany i se (Some p)]))"
    by (rule pool_good_cong) (use False in \<open>cases i; cases se; auto simp: pooled_sector_snoc\<close>)
  with False show ?thesis by (cases se) auto
qed

lemma pool_inv_add:
  assumes "pool_inv calls s"
  shows "pool_inv (calls @ [AddCompany i se pe]) (add_company s i se pe)"
proof (cases "pe_accepted pe")
  case False
  have "industry_entry label (AddCompany i se pe) = []" for label
    using False by (cases i; cases pe) auto
  moreover have "sector_entry label (AddCompany i se pe) = []" for label
    using False by (cases se; cases pe) auto
  ultimately show ?thesis
    using assms False
    by (simp add: add_company_rejected pool_inv_def pooled_industry_snoc pooled_sector_snoc)
next
  case True
  then obtain p where p: "pe = Some p" by (cases pe) (auto simp: pe_accepted_def)
  from assms have gi: "pool_good (pe_by_industry s) (industry_avg s) (averages_calculated s)
        (\<lambda>label. pooled_industry label calls)"
    and gs: "pool_good (pe_by_sector s) (sector_avg s) (averages_calculated s)
        (\<lambda>label. pooled_sector label calls)"
    by (simp_all add: pool_inv_def)
  from True p have acc: "pe_accepted (Some p)" by simp
  show ?thesis
    unfolding pool_inv_def p add_company_fields [OF acc]
    using pool_good_industry_add [OF gi acc, of i se] pool_good_sector_add [OF gs acc, of se i]
    by simp
qed

lemma pool_run_snoc: "pool_run (calls @ [c]) = pool_step c (pool_run calls)"
  by (simp add: pool_run_def)

lemma pool_inv_run: "pool_inv calls (pool_run calls)"
proof (induction calls rule: rev_induct)
  case Nil
  show ?case
    by (simp add: pool_run_def pool_inv_def pool_good_def IndustryAverages_init_def
        pooled_industry_def pooled_sector_def bucket_of_def)
next
  case (snoc c calls)
  show ?case
  proof (cases c)
    case (AddCompany i se pe)
    with snoc show ?thesis by (simp add: pool_run_snoc pool_inv_add)
  next
    case (GetIndustryAverage i)
    with snoc show ?thesis
      by (simp add: pool_run_snoc get_industry_average_eq pool_inv_read)
  next
    case (GetSectorAverage se)
    with snoc show ?thesis
      by (simp add: pool_run_snoc get_sector_average_eq pool_inv_read)
  next
    case (GetPeerAverage i se)
    with snoc show ?thesis
      by (simp add: pool_run_snoc snd_get_peer_average pool_inv_read)
  qed
qed

lemma industry_entry_no_label: "industry_entry [] c = []"
  by (cases "([]::string, c)" rule: industry_entry.cases) auto

lemma sector_entry_no_label: "sector_entry [] c = []"
  by (cases "([]::string, c)" rule: sector_entry.cases) auto

lemma read_industry_median:
  "fst (get_industry_average (pool_run calls) (Some label)) =
     median_of_pool (pooled_industry label calls)"
proof -
  have "pool_inv calls (settled (pool_run calls))"
    by (rule pool_inv_settled [OF pool_inv_run])
  then have "map_of (industry_avg (settled (pool_run calls))) label =
      map_option bucket_median (bucket_of (\<lambda>label. pooled_industry label calls) label)"
    using settled_calculated [of "pool_run calls"] by (simp add: pool_inv_def pool_good_def)
  moreover have "pooled_industry [] calls = []"
    by (simp add: pooled_industry_def industry_entry_no_label)
  ultimately show ?thesis
    by (simp add: get_industry_average_eq median_of_pool_def bucket_of_def
        bucket_median_is_median)
qed

lemma read_sector_median:
  "fst (get_sector_average (pool_run calls) (Some label)) =
     median_of_pool (pooled_sector label calls)"
proof -
  have "pool_inv calls (settled (pool_run calls))"
    by (rule pool_inv_settled [OF pool_inv_run])
  then have "map_of (sector_avg (settled (pool_run calls))) label =
      map_option bucket_median (bucket_of (\<lambda>label. pooled_sector label calls) label)"
    using settled_calculated [of "pool_run calls"] by (simp add: pool_inv_def pool_good_def)
  moreover have "pooled_sector [] calls = []"
    by (simp add: pooled_sector_def sector_entry_no_label)
  ultimately show ?thesis
    by (simp add: get_sector_average_eq median_of_pool_def bucket_of_def
        bucket_median_is_median)
qed

lemma buckets_accepted:
  assumes "(label, pes) \<in> set (pe_by_industry (pool_run calls)) \<or>
           (label, pes) \<in> set (pe_by_sector (pool_run calls))"
  shows "\<forall>p \<in> set pes. 0 < p \<and> p \<le> 200"
proof -
  have inv: "pool_inv calls (pool_run calls)" by (rule pool_inv_run)
  have acc_i: "\<forall>p \<in> set (industry_entry l c). 0 < p \<and> p \<le> 200" for l c
    by (cases "(l, c)" rule: industry_entry.cases) (auto simp: pe_accepted_def)
  have acc_s: "\<forall>p \<in> set (sector_entry l c). 0 < p \<and> p \<le> 200" for l c
    by (cases "(l, c)" rule: sector_entry.cases) (auto simp: pe_accepted_def)
  from assms show ?thesis
  proof
    assume "(label, pes) \<in> set (pe_by_industry (pool_run calls))"
    with inv have "map_of (pe_by_industry (pool_run calls)) label = Some pes"
      by (simp add: pool_inv_def pool_good_def del: map_of_eq_Some_iff)
         (metis map_of_eq_Some_iff)
    with inv have "pes = pooled_industry label calls"
      by (auto simp: pool_inv_def pool_good_def bucket_of_def split: if_splits)
    with acc_i show ?thesis by (auto simp: pooled_industry_def)
  next
    assume "(label, pes) \<in> set (pe_by_sector (pool_run calls))"
    with inv have "map_of (pe_by_sector (pool_run calls)) label = Some pes"
      by (simp add: pool_inv_def pool_good_def del: map_of_eq_Some_iff)
         (metis map_of_eq_Some_iff)
    with inv have "pes = pooled_sector label calls"
      by (auto simp: pool_inv_def pool_good_def bucket_of_def split: if_splits)
    with acc_s show ?thesis by (auto simp: pooled_sector_def)
  qed
qed

lemma pool_example_run:
  "pool_run pool_example =
     \<lparr>pe_by_industry = [(''Software'', [20, 8, 15, 12])],
      pe_by_sector = [(''Technology'', [20, 8, 15, 12])],
      averages_calculated = False,
      industry_avg = [(''Software'', 14)], sector_avg = [(''Technology'', 14)]\<rparr>"
  by (simp add: pool_example_def pool_run_def add_company_def bucket_append_def
      IndustryAverages_init_def snd_get_peer_average settled_def calculate_averages_def
      collapse_def bucket_median_def Let_def)

lemma pool_example_pooled:
  "pooled_industry ''Software'' pool_example = [20, 8, 15, 12]"
  "pooled_sector ''Technology'' pool_example = [20, 8, 15, 12]"
  "pooled_industry ''Banks'' pool_example = []"
  by (simp_all add: pooled_industry_def pooled_sector_def pool_example_def pe_accepted_def)

section \<open>Facts about the tax rate\<close>

lemma rate_computed:
  assumes "series_get fin ''Pretax Income'' = Some (Fl p)" "0 < p"
    and "por (series_get fin ''Tax Provision'') (series_get fin ''Income Tax Expense'') = Some (Fl t)"
    and "t \<noteq> 0"
  shows "roic_tax_rate fin = Some (Fl (clamp (\<bar>t\<bar> / p) 0 (1/2)))"
proof -
  have nn: "0 \<le> \<bar>t\<bar> / p" using assms(2) by simp
  then have "clamp (\<bar>t\<bar> / p) 0 (1/2) = (if 1/2 < \<bar>t\<bar> / p then 1/2 else \<bar>t\<bar> / p)"
    by (simp add: clamp_def min_def max_def)
  moreover have "\<not> \<bar>t\<bar> / p < 0" using nn by simp
  ultimately show ?thesis
    using assms by (simp add: roic_tax_rate_def Let_def py_min_def py_max_def)
qed

lemma rate_default:
  assumes "series_get fin ''Pretax Income'' = None \<or> series_get fin ''Pretax Income'' = Some NaN
      \<or> series_get fin ''Pretax Income'' = Some (Fl p) \<and> p \<le> 0
      \<or> \<not> truthy (por (series_get fin ''Tax Provision'') (series_get fin ''Income Tax Expense''))"
  shows "roic_tax_rate fin = Some (Fl (1/4))"
  using assms
  by (auto simp: roic_tax_rate_def Let_def split: option.splits pyfloat.splits)

section \<open>Facts about the terms of the score\<close>

lemma py_min_Fl: "py_min (Fl a) (Fl b) = Fl (min a b)"
  by (simp add: py_min_def min_def)

lemma py_max_Fl: "py_max (Fl a) (Fl b) = Fl (max a b)"
  by (simp add: py_max_def max_def)

lemma roic_score:
  "roic m \<noteq> Some NaN \<Longrightarrow>
   (case roic m of None \<Rightarrow> Fl 0 | Some r \<Rightarrow> fadd (Fl 0) (py_min (fmul r (Fl 100)) (Fl 30)))
     = Fl (roic_term m)"
  by (cases "roic m"; cases "the (roic m)") (auto simp: roic_term_def py_min_Fl)

lemma pe_score:
  "(case map_of results ''pe_below_max'' of
      None \<Rightarrow> Fl s
    | Some pe_result \<Rightarrow>
        (case (fvalue pe_result, threshold pe_result) of
           (Some v, Some t) \<Rightarrow>
             if truthy (Some v) \<and> t \<noteq> 0
             then fadd (Fl s)
                    (py_max (Fl 0) (py_min (fmul (fdiv_by (fsub (Fl t) v) t) (Fl 40)) (Fl 20)))
             else Fl s
         | other \<Rightarrow> Fl s))
     = Fl (s + pe_term results)"
proof (cases "map_of results ''pe_below_max''")
  case None
  then show ?thesis by (simp add: pe_term_def)
next
  case (Some res)
  show ?thesis
  proof (cases "fvalue res")
    case None
    with Some show ?thesis by (simp add: pe_term_def)
  next
    case v: (Some v)
    show ?thesis
    proof (cases "threshold res")
      case None
      with Some v show ?thesis by (cases v) (simp_all add: pe_term_def)
    next
      case t: (Some t)
      show ?thesis
      proof (cases v)
        case NaN
        with Some v t show ?thesis
          by (simp add: pe_term_def py_min_def py_max_def)
      next
        case (Fl x)
        with Some v t show ?thesis
          by (simp add: pe_term_def py_min_Fl py_max_Fl clamp_def)
      qed
    qed
  qed
qed

lemma score_sum:
  assumes "roic m \<noteq> Some NaN"
  shows "calculate_score m growth_data results =
     Fl (roic_term m + pe_term results + cf_term m + debt_term m + growth_term growth_data)"
proof -
  show ?thesis
    unfolding calculate_score_def Let_def
    by (simp only: roic_score [OF assms] pe_score)
       (simp add: cf_term_def debt_term_def growth_term_def split: option.splits)
qed

lemma roic_term_bound: "roic_term m \<le> 30"
  by (simp add: roic_term_def split: option.splits pyfloat.splits)

lemma pe_term_bound: "pe_term results \<le> 20"
  by (simp add: pe_term_def clamp_def split: option.splits pyfloat.splits)

lemma cf_term_bound: "cf_term m \<le> 20"
  by (simp add: cf_term_def split: option.splits)

lemma growth_term_bound: "growth_term growth_data \<le> 15"
  by (simp add: growth_term_def)

lemma debt_term_bound:
  "(case debt_to_equity m of None \<Rightarrow> True | Some de \<Rightarrow> 0 \<le> de) \<Longrightarrow> debt_term m \<le> 15"
  by (simp add: debt_term_def split: option.splits)

text \<open>The ROIC history of the example keeps the NaN of its recent period.\<close>

lemma roic_history_example: "calculate_roic_history nan_roic_calculator 6 = [NaN, Fl (14/81)]"
  by (simp add: calculate_roic_history_def nan_roic_calculator_def calculator_of_def
      calculate_roic_def frame_of_periods_def iloc_col_def roic_body_def roic_nopat_def
      roic_tax_rate_def roic_total_debt_def series_get_def por_def py_min_def py_max_def
      upt_conv_Cons Let_def)

text \<open>\<open>calculate_debt_to_equity\<close> never hands a NaN to the metrics.\<close>

lemma calculate_debt_to_equity_number: "calculate_debt_to_equity self \<noteq> Some NaN"
  by (auto simp: calculate_debt_to_equity_def Let_def split: option.splits pyfloat.splits if_splits
      elim!: fdiv.elims)

section \<open>The claims\<close>

text \<open>
  C3. For every quarterly frame (most recent period first), field and window size \<open>n\<close>,
  \<open>_sum_quarters\<close> returns the sum of the field over the \<open>n\<close> most recent periods exactly
  when the frame has at least \<open>n\<close> periods and every one of those \<open>n\<close> reports the field;
  in every other case it returns unknown: never a partial sum, never a sum padded with
  zeros. For a window of at least one period, having the periods and the field in each
  of them is just: at least \<open>n\<close> columns, and the field a row with a number in each of
  the first \<open>n\<close>.
\<close>

theorem sum_quarters_all_or_nothing:
  "sum_quarters df field n =
     (if has_periods df n \<and> present_in_recent df field n
      then Some (recent_sum df field n) else None)
   \<and> (0 < n \<longrightarrow>
        (has_periods (Some d) n \<and> present_in_recent (Some d) field n)
        = (n \<le> length (columns d) \<and> (\<forall>c \<in> set (take n (columns d)). present_in d field c)))"
proof -
  have "has_periods (Some d) n \<and> present_in_recent (Some d) field n"
    if pos: "0 < n" and len: "n \<le> length (columns d)"
      and all: "\<forall>c \<in> set (take n (columns d)). present_in d field c"
  proof -
    from pos len have ne: "take n (columns d) \<noteq> []" by auto
    then obtain c where "c \<in> set (take n (columns d))" by (cases "take n (columns d)") auto
    with all have "field \<in> set (index d)" by (auto simp: present_in_def)
    with ne all show ?thesis
      by (auto simp: has_periods_def present_in_recent_def df_empty_def len)
  qed
  moreover have "n \<le> length (columns d) \<and> (\<forall>c \<in> set (take n (columns d)). present_in d field c)"
    if "has_periods (Some d) n \<and> present_in_recent (Some d) field n"
    using that by (simp add: has_periods_def present_in_recent_def)
  ultimately show ?thesis
    using sum_quarters_char [of df field n] by blast
qed

text \<open>
  Four known quarters 10, 20, 30, 40 sum to 100; with any one of the four missing the
  result is unknown (not 90, 80, 70 or 60); three quarters are not enough.
\<close>

theorem sum_quarters_all_or_nothing_witness:
  "sum_quarters (Some (periods_of ''Total Revenue'' [Some 10, Some 20, Some 30, Some 40]))
     ''Total Revenue'' 4 = Some 100
   \<and> sum_quarters (Some (periods_of ''Total Revenue'' [None, Some 20, Some 30, Some 40]))
     ''Total Revenue'' 4 = None
   \<and> sum_quarters (Some (periods_of ''Total Revenue'' [Some 10, None, Some 30, Some 40]))
     ''Total Revenue'' 4 = None
   \<and> sum_quarters (Some (periods_of ''Total Revenue'' [Some 10, Some 20, None, Some 40]))
     ''Total Revenue'' 4 = None
   \<and> sum_quarters (Some (periods_of ''Total Revenue'' [Some 10, Some 20, Some 30, None]))
     ''Total Revenue'' 4 = None
   \<and> sum_quarters (Some (periods_of ''Total Revenue'' [Some 10, Some 20, Some 30]))
     ''Total Revenue'' 4 = None"
  using
    sum_quarters_all_or_nothing
      [of "Some (periods_of ''Total Revenue'' [Some 10, Some 20, Some 30, Some 40])"
          "''Total Revenue''" 4]
    sum_quarters_all_or_nothing
      [of "Some (periods_of ''Total Revenue'' [None, Some 20, Some 30, Some 40])"
          "''Total Revenue''" 4]
    sum_quarters_all_or_nothing
      [of "Some (periods_of ''Total Revenue'' [Some 10, None, Some 30, Some 40])"
          "''Total Revenue''" 4]
    sum_quarters_all_or_nothing
      [of "Some (periods_of ''Total Revenue'' [Some 10, Some 20, None, Some 40])"
          "''Total Revenue''" 4]
    sum_quarters_all_or_nothing
      [of "Some (periods_of ''Total Revenue'' [Some 10, Some 20, Some 30, None])"
          "''Total Revenue''" 4]
    sum_quarters_all_or_nothing
      [of "Some (periods_of ''Total Revenue'' [Some 10, Some 20, Some 30])"
          "''Total Revenue''" 4]
  by (simp add: periods_of_def frame_of_periods_def has_periods_def present_in_recent_def
      present_in_def recent_sum_def df_empty_def)

text \<open>
  C4. \<open>count_consecutive_growth_years\<close> walks the observed values of the field from the
  most recent back toward the oldest and returns the number of leading steps whose
  earlier value is positive and whose later value is larger, stopping at the first step
  that fails (an earlier value that is zero or negative fails the step whatever the
  later value); with fewer than two observed points it returns 0.
\<close>

theorem count_consecutive_growth_years_streak:
  "count_consecutive_growth_years self field = streak (rev (observed self field))
   \<and> (length (observed self field) < 2 \<longrightarrow> count_consecutive_growth_years self field = 0)
   \<and> (previous \<le> 0 \<longrightarrow> \<not> grows (current, previous))"
proof -
  have "length (observed self field) < 2 \<Longrightarrow> streak (rev (observed self field)) = 0"
    by (intro streak_short) simp
  then show ?thesis
    by (simp add: count_is_streak grows_def)
qed

text \<open>
  Oldest first 80, 100, 90, 120, 130: two growth steps (130 over 120, 120 over 90), then
  90 under 100 stops the walk. Oldest first -5, 10, 20: one step, then the loss of -5
  stops the walk although 10 is larger. A single observed point gives 0.
\<close>

theorem count_consecutive_growth_years_streak_witness:
  "count_consecutive_growth_years (growth_example [80, 100, 90, 120, 130]) ''Total Revenue'' = 2
   \<and> count_consecutive_growth_years (growth_example [-5, 10, 20]) ''Total Revenue'' = 1
   \<and> length (observed (growth_example [100]) ''Total Revenue'') < 2
   \<and> count_consecutive_growth_years (growth_example [100]) ''Total Revenue'' = 0
   \<and> (-5::real) \<le> 0 \<and> \<not> grows (10, -5)"
  using
    count_consecutive_growth_years_streak
      [of "growth_example [80, 100, 90, 120, 130]" "''Total Revenue''" "-5" 10]
    count_consecutive_growth_years_streak
      [of "growth_example [-5, 10, 20]" "''Total Revenue''" "-5" 10]
    count_consecutive_growth_years_streak
      [of "growth_example [100]" "''Total Revenue''" "-5" 10]
  by (simp add: growth_example_def periods_of_def frame_of_periods_def observed_def loc_def
      streak_def grows_def)

text \<open>
  C10, as the code has it. When the four most recent quarters all report
  'Operating Income' and the four values sum to 0, \<open>get_ttm_operating_income\<close> returns
  what the TTM sum of 'EBIT' returns: that sum, or unknown when it is unavailable. The
  result is therefore 0 only when the four 'EBIT' quarters themselves sum to 0.
  \<open>get_ttm_operating_cashflow\<close> does the same between 'Operating Cash Flow' and
  'Cash Flow From Continuing Operating Activities'.
\<close>

theorem zero_sum_takes_fallback:
  "(has_periods (quarterly_financials self) 4
      \<and> present_in_recent (quarterly_financials self) ''Operating Income'' 4
      \<and> recent_sum (quarterly_financials self) ''Operating Income'' 4 = 0
    \<longrightarrow> get_ttm_operating_income self = sum_quarters (quarterly_financials self) ''EBIT'' 4)
   \<and> (has_periods (quarterly_cashflow self) 4
      \<and> present_in_recent (quarterly_cashflow self) ''Operating Cash Flow'' 4
      \<and> recent_sum (quarterly_cashflow self) ''Operating Cash Flow'' 4 = 0
    \<longrightarrow> get_ttm_operating_cashflow self =
          sum_quarters (quarterly_cashflow self)
            ''Cash Flow From Continuing Operating Activities'' 4)"
  by (simp add: get_ttm_operating_income_def get_ttm_operating_cashflow_def
      sum_quarters_char [of _ "''Operating Income''"]
      sum_quarters_char [of _ "''Operating Cash Flow''"] or_else_def)

text \<open>
  Operating income 5, -5, 0, 0 sums to 0: the result is the EBIT sum 1 + 2 + 3 + 4 = 10;
  with no 'EBIT' row the result is unknown; likewise for the two cash-flow fields.
\<close>

theorem zero_sum_takes_fallback_witness:
  "has_periods (quarterly_financials (ttm_of_financials
       [[(''Operating Income'', 5), (''EBIT'', 1)], [(''Operating Income'', -5), (''EBIT'', 2)],
        [(''Operating Income'', 0), (''EBIT'', 3)], [(''Operating Income'', 0), (''EBIT'', 4)]])) 4
   \<and> present_in_recent (quarterly_financials (ttm_of_financials
       [[(''Operating Income'', 5), (''EBIT'', 1)], [(''Operating Income'', -5), (''EBIT'', 2)],
        [(''Operating Income'', 0), (''EBIT'', 3)], [(''Operating Income'', 0), (''EBIT'', 4)]]))
       ''Operating Income'' 4
   \<and> recent_sum (quarterly_financials (ttm_of_financials
       [[(''Operating Income'', 5), (''EBIT'', 1)], [(''Operating Income'', -5), (''EBIT'', 2)],
        [(''Operating Income'', 0), (''EBIT'', 3)], [(''Operating Income'', 0), (''EBIT'', 4)]]))
       ''Operating Income'' 4 = 0
   \<and> get_ttm_operating_income (ttm_of_financials
       [[(''Operating Income'', 5), (''EBIT'', 1)], [(''Operating Income'', -5), (''EBIT'', 2)],
        [(''Operating Income'', 0), (''EBIT'', 3)], [(''Operating Income'', 0), (''EBIT'', 4)]])
       = Some 10
   \<and> get_ttm_operating_income (ttm_of_financials (replicate 4 [(''Operating Income'', 0)]))
       = None
   \<and> get_ttm_operating_cashflow (ttm_of_cashflow
       (replicate 4 [(''Operating Cash Flow'', 0),
                     (''Cash Flow From Continuing Operating Activities'', 7)]))
       = Some 28"
  using
    zero_sum_takes_fallback [of "ttm_of_financials (replicate 4 [(''Operating Income'', 0)])"]
    zero_sum_takes_fallback [of "ttm_of_financials
       [[(''Operating Income'', 5), (''EBIT'', 1)], [(''Operating Income'', -5), (''EBIT'', 2)],
        [(''Operating Income'', 0), (''EBIT'', 3)], [(''Operating Income'', 0), (''EBIT'', 4)]]"]
    zero_sum_takes_fallback [of "ttm_of_cashflow
       (replicate 4 [(''Operating Cash Flow'', 0),
                     (''Cash Flow From Continuing Operating Activities'', 7)])"]
  by (simp add: ttm_of_financials_def ttm_of_cashflow_def frame_of_periods_def has_periods_def
      present_in_recent_def present_in_def recent_sum_def df_empty_def sum_quarters_def
      get_last_n_quarters_def iloc_first_def loc_def numeral_eq_Suc)

text \<open>
  C10 as stated says the function does not return 0. With the four 'Operating Income'
  quarters and the four 'EBIT' quarters all 0, the operating-income sum is a computed 0
  and the function returns 0, the 'EBIT' sum.
\<close>

theorem zero_sum_can_return_zero:
  "sum_quarters (quarterly_financials (ttm_of_financials
       (replicate 4 [(''Operating Income'', 0), (''EBIT'', 0)]))) ''Operating Income'' 4 = Some 0
   \<and> get_ttm_operating_income (ttm_of_financials
       (replicate 4 [(''Operating Income'', 0), (''EBIT'', 0)])) = Some 0"
  by (simp add: ttm_of_financials_def get_ttm_operating_income_def sum_quarters_def
      get_last_n_quarters_def df_empty_def iloc_first_def loc_def frame_of_periods_def
      or_else_def numeral_eq_Suc)

text \<open>
  C7. For every sequence of calls on a fresh pool (\<open>add_company\<close> calls, with reads in
  between or not): a PE that is unknown, not positive, or above 200 leaves the pool as it
  is, so no bucket ever holds such a value; and the industry average and the sector
  average read after the sequence are the median of the PEs pooled under that label
  (unknown when none is pooled), the median of an even-sized pool being the average of
  its two central values: 13.5 for 8, 12, 15, 20 and 12 for 8, 12, 15.
\<close>

theorem pooled_medians:
  "(pe = None \<or> pe = Some p \<and> (p \<le> 0 \<or> 200 < p)
      \<longrightarrow> add_company self ind_label sec_label pe = self)
   \<and> ((label, pes) \<in> set (pe_by_industry (pool_run calls))
        \<or> (label, pes) \<in> set (pe_by_sector (pool_run calls))
      \<longrightarrow> (\<forall>v \<in> set pes. 0 < v \<and> v \<le> 200))
   \<and> fst (get_industry_average (pool_run calls) (Some label)) =
       median_of_pool (pooled_industry label calls)
   \<and> fst (get_sector_average (pool_run calls) (Some label)) =
       median_of_pool (pooled_sector label calls)
   \<and> median [8, 12, 15, 20] = 27/2 \<and> median [8, 12, 15] = 12"
proof -
  have "pe = None \<or> pe = Some p \<and> (p \<le> 0 \<or> 200 < p) \<Longrightarrow> \<not> pe_accepted pe"
    by (auto simp: pe_accepted_def)
  then have rej: "pe = None \<or> pe = Some p \<and> (p \<le> 0 \<or> 200 < p)
      \<longrightarrow> add_company self ind_label sec_label pe = self"
    using add_company_rejected by blast
  have ex: "median [8, 12, 15, 20] = 27/2 \<and> median [8, 12, 15] = 12"
    by (simp add: median_def)
  from rej ex show ?thesis
    using buckets_accepted [of label pes calls]
      read_industry_median [of calls label] read_sector_median [of calls label]
    by blast
qed

text \<open>
  The example run pools 20, 8, 15, 12 under its industry and its sector, rejects 0, 250
  and the unknown PE, and serves 14 (the median of 20 and 8) at the read in between; the
  reads after the run give 13.5, and an industry nobody was pooled under gives unknown.
\<close>

theorem pooled_medians_witness:
  "add_company IndustryAverages_init (Some ''Software'') (Some ''Technology'') (Some 250)
     = IndustryAverages_init
   \<and> (''Software'', [20, 8, 15, 12]) \<in> set (pe_by_industry (pool_run pool_example))
   \<and> fst (get_industry_average (pool_run pool_example) (Some ''Software'')) = Some (27/2)
   \<and> fst (get_sector_average (pool_run pool_example) (Some ''Technology'')) = Some (27/2)
   \<and> fst (get_industry_average (pool_run pool_example) (Some ''Banks'')) = None"
  using pooled_medians [where pe = "Some 250" and p = 250 and self = IndustryAverages_init
      and ind_label = "Some ''Software''" and sec_label = "Some ''Technology''"
      and label = "''Software''" and pes = "[20, 8, 15, 12]" and calls = pool_example]
    pooled_medians [where pe = "Some 250" and p = 250 and self = IndustryAverages_init
      and ind_label = "Some ''Software''" and sec_label = "Some ''Technology''"
      and label = "''Technology''" and pes = "[20, 8, 15, 12]" and calls = pool_example]
    pooled_medians [where pe = "Some 250" and p = 250 and self = IndustryAverages_init
      and ind_label = "Some ''Software''" and sec_label = "Some ''Technology''"
      and label = "''Banks''" and pes = "[20, 8, 15, 12]" and calls = pool_example]
  by (simp add: pool_example_run pool_example_pooled median_of_pool_def median_def)

text \<open>
  C9. For every pool state, a second \<open>get_peer_average\<close> with the same arguments, called
  right after the first with no \<open>add_company\<close> in between, returns the result of the
  first; the second call leaves the pool exactly as the first left it.
\<close>

theorem get_peer_average_repeatable:
  "fst (get_peer_average (snd (get_peer_average self ind_label sec_label)) ind_label sec_label)
     = fst (get_peer_average self ind_label sec_label)
   \<and> snd (get_peer_average (snd (get_peer_average self ind_label sec_label)) ind_label sec_label)
     = snd (get_peer_average self ind_label sec_label)"
  by (simp add: snd_get_peer_average get_peer_average_settled settled_idem)

text \<open>
  C5 states that total debt is 'Total Debt' when reported and otherwise the sum of
  'Long Term Debt' and 'Current Debt'. On a balance sheet that reports long-term debt
  100, current debt 50 and equity 100 but no 'Total Debt', \<open>calculate_roic\<close> takes total
  debt 100: its first branch already yields the long-term debt alone, so the sum with
  the current debt is never formed. With EBIT 30 the ROIC is 22.5 / 200 instead of
  22.5 / 250. \<open>calculate_debt_to_equity\<close> forms the sum on the same balance sheet:
  150 / 100.
\<close>

theorem roic_total_debt_drops_current_debt:
  "roic_total_debt (period_series
       [[(''Long Term Debt'', 100), (''Current Debt'', 50), (''Total Equity'', 100)]]
       [(''Long Term Debt'', 100), (''Current Debt'', 50), (''Total Equity'', 100)]) = Fl 100
   \<and> claimed_total_debt (period_series
       [[(''Long Term Debt'', 100), (''Current Debt'', 50), (''Total Equity'', 100)]]
       [(''Long Term Debt'', 100), (''Current Debt'', 50), (''Total Equity'', 100)]) = 150
   \<and> calculate_roic (calculator_of [[(''EBIT'', 30)]]
       [[(''Long Term Debt'', 100), (''Current Debt'', 50), (''Total Equity'', 100)]]) 0
       = Some (Fl (9/80))
   \<and> calculate_debt_to_equity (calculator_of [[(''EBIT'', 30)]]
       [[(''Long Term Debt'', 100), (''Current Debt'', 50), (''Total Equity'', 100)]])
       = Some (Fl (3/2))"
  by (simp add: roic_total_debt_def claimed_total_debt_def period_series_def
      frame_of_periods_def series_get_def calculate_roic_def calculator_of_def iloc_col_def
      roic_body_def roic_nopat_def roic_tax_rate_def por_def calculate_debt_to_equity_def
      df_empty_def Let_def)

text \<open>
  C6, as the code has it. The tax figure is what \<open>Tax Provision or Income Tax Expense\<close>
  reads: 'Tax Provision', or 'Income Tax Expense' when the former is absent or zero.
  When pretax income is a positive number and the tax figure is a non-zero number, the
  rate is \<open>|tax figure| / pretax income\<close> clamped to \<open>[0, 0.5]\<close> and
  \<open>NOPAT = EBIT * (1 - rate)\<close>. When pretax income is absent, NaN, zero or negative, or
  the tax figure is absent or zero, the rate is the default 0.25.
\<close>

theorem effective_tax_rate:
  "(series_get fin ''Pretax Income'' = Some (Fl p) \<and> 0 < p
      \<and> por (series_get fin ''Tax Provision'') (series_get fin ''Income Tax Expense'')
          = Some (Fl t) \<and> t \<noteq> 0
    \<longrightarrow> roic_tax_rate fin = Some (Fl (clamp (\<bar>t\<bar> / p) 0 (1/2)))
        \<and> roic_nopat fin e = Some (Fl (e * (1 - clamp (\<bar>t\<bar> / p) 0 (1/2)))))
   \<and> (series_get fin ''Pretax Income'' = None \<or> series_get fin ''Pretax Income'' = Some NaN
      \<or> series_get fin ''Pretax Income'' = Some (Fl q) \<and> q \<le> 0
      \<or> \<not> truthy (por (series_get fin ''Tax Provision'')
                        (series_get fin ''Income Tax Expense''))
    \<longrightarrow> roic_tax_rate fin = Some (Fl (1/4))
        \<and> roic_nopat fin e = Some (Fl (e * (1 - 1/4))))"
proof (intro conjI impI)
  assume a: "series_get fin ''Pretax Income'' = Some (Fl p) \<and> 0 < p
      \<and> por (series_get fin ''Tax Provision'') (series_get fin ''Income Tax Expense'')
          = Some (Fl t) \<and> t \<noteq> 0"
  then show r: "roic_tax_rate fin = Some (Fl (clamp (\<bar>t\<bar> / p) 0 (1/2)))"
    by (intro rate_computed) simp_all
  then show "roic_nopat fin e = Some (Fl (e * (1 - clamp (\<bar>t\<bar> / p) 0 (1/2))))"
    by (simp add: roic_nopat_def)
next
  assume "series_get fin ''Pretax Income'' = None \<or> series_get fin ''Pretax Income'' = Some NaN
      \<or> series_get fin ''Pretax Income'' = Some (Fl q) \<and> q \<le> 0
      \<or> \<not> truthy (por (series_get fin ''Tax Provision'')
                        (series_get fin ''Income Tax Expense''))"
  then show r: "roic_tax_rate fin = Some (Fl (1/4))"
    by (rule rate_default)
  then show "roic_nopat fin e = Some (Fl (e * (1 - 1/4)))"
    by (simp add: roic_nopat_def)
qed

text \<open>
  Pretax income 100 with a tax provision of -30 gives the rate 0.3 and, on an EBIT of 50,
  a NOPAT of 35; a provision of 80 is clamped to 0.5; a pretax loss of 10 gives the
  default 0.25.
\<close>

theorem effective_tax_rate_witness:
  "roic_tax_rate (period_series [[(''Pretax Income'', 100), (''Tax Provision'', -30)]]
       [(''Pretax Income'', 100), (''Tax Provision'', -30)]) = Some (Fl (3/10))
   \<and> roic_nopat (period_series [[(''Pretax Income'', 100), (''Tax Provision'', -30)]]
       [(''Pretax Income'', 100), (''Tax Provision'', -30)]) 50 = Some (Fl 35)
   \<and> roic_tax_rate (period_series [[(''Pretax Income'', 100), (''Income Tax Expense'', 80)]]
       [(''Pretax Income'', 100), (''Income Tax Expense'', 80)]) = Some (Fl (1/2))
   \<and> roic_tax_rate (period_series [[(''Pretax Income'', -10), (''Tax Provision'', 5)]]
       [(''Pretax Income'', -10), (''Tax Provision'', 5)]) = Some (Fl (1/4))"
  using
    effective_tax_rate [where p = 100 and t = "-30" and e = 50 and q = 0 and
      fin = "period_series [[(''Pretax Income'', 100), (''Tax Provision'', -30)]]
               [(''Pretax Income'', 100), (''Tax Provision'', -30)]"]
    effective_tax_rate [where p = 100 and t = 80 and e = 50 and q = 0 and
      fin = "period_series [[(''Pretax Income'', 100), (''Income Tax Expense'', 80)]]
               [(''Pretax Income'', 100), (''Income Tax Expense'', 80)]"]
    effective_tax_rate [where p = 1 and t = 5 and e = 50 and q = "-10" and
      fin = "period_series [[(''Pretax Income'', -10), (''Tax Provision'', 5)]]
               [(''Pretax Income'', -10), (''Tax Provision'', 5)]"]
  by (simp add: period_series_def frame_of_periods_def series_get_def por_def clamp_def)

text \<open>
  C6 as stated fails on two periods with pretax income 100. A reported tax provision of
  0 is a known provision, so the claimed rate is 0; the code takes the default 0.25
  (ROIC 22.5 / 100 on an EBIT of 30 and equity of 100). A provision that only an older
  period reports is NaN in the recent one, so the claimed rate is the default; the code
  computes a NaN rate and returns a NaN ROIC.
\<close>

theorem tax_rate_zero_or_nan_provision:
  "roic_tax_rate (period_series
       [[(''EBIT'', 30), (''Pretax Income'', 100), (''Tax Provision'', 0)]]
       [(''EBIT'', 30), (''Pretax Income'', 100), (''Tax Provision'', 0)]) = Some (Fl (1/4))
   \<and> claimed_tax_rate (period_series
       [[(''EBIT'', 30), (''Pretax Income'', 100), (''Tax Provision'', 0)]]
       [(''EBIT'', 30), (''Pretax Income'', 100), (''Tax Provision'', 0)]) = 0
   \<and> calculate_roic (calculator_of
       [[(''EBIT'', 30), (''Pretax Income'', 100), (''Tax Provision'', 0)]]
       [[(''Total Equity'', 100)]]) 0 = Some (Fl (9/40))
   \<and> roic_tax_rate (period_series
       [[(''EBIT'', 30), (''Pretax Income'', 100)],
        [(''EBIT'', 20), (''Pretax Income'', 90), (''Tax Provision'', 20)]]
       [(''EBIT'', 30), (''Pretax Income'', 100)]) = Some NaN
   \<and> claimed_tax_rate (period_series
       [[(''EBIT'', 30), (''Pretax Income'', 100)],
        [(''EBIT'', 20), (''Pretax Income'', 90), (''Tax Provision'', 20)]]
       [(''EBIT'', 30), (''Pretax Income'', 100)]) = 1/4
   \<and> calculate_roic (calculator_of
       [[(''EBIT'', 30), (''Pretax Income'', 100)],
        [(''EBIT'', 20), (''Pretax Income'', 90), (''Tax Provision'', 20)]]
       [[(''Total Equity'', 100)], [(''Total Equity'', 90)]]) 0 = Some NaN"
  by (simp add: roic_total_debt_def claimed_tax_rate_def period_series_def clamp_def
      frame_of_periods_def series_get_def calculate_roic_def calculator_of_def iloc_col_def
      roic_body_def roic_nopat_def roic_tax_rate_def por_def py_min_def py_max_def Let_def)

text \<open>
  C2, as the code has it. For metrics whose ROIC is unknown or a number, the score is
  the sum of five terms, each clamped on its own: \<open>min(roic * 100, 30)\<close> if the ROIC is
  known; for a 'pe_below_max' result whose value is a non-zero number and whose
  threshold is known and non-zero,
  \<open>clamp(((threshold - value) / threshold) * 40, 0, 20)\<close>; \<open>min(cf_yield * 100, 20)\<close> if
  known; \<open>max(0, 15 - debt_to_equity * 30)\<close> if known; and
  \<open>min((revenue_growth_years + earnings_growth_years) * 1.5, 15)\<close>; a term whose input is
  missing is 0. If moreover the debt-to-equity ratio is unknown or not negative, the
  score is at most 100.
\<close>

theorem calculate_score_terms:
  "(roic m \<noteq> Some NaN \<longrightarrow>
      calculate_score m growth_data results =
        Fl (roic_term m + pe_term results + cf_term m + debt_term m + growth_term growth_data))
   \<and> (roic m \<noteq> Some NaN \<and> (case debt_to_equity m of None \<Rightarrow> True | Some de \<Rightarrow> 0 \<le> de)
      \<longrightarrow> fle (calculate_score m growth_data results) (Fl 100))"
proof -
  have "fle (calculate_score m growth_data results) (Fl 100)"
    if r: "roic m \<noteq> Some NaN"
      and d: "case debt_to_equity m of None \<Rightarrow> True | Some de \<Rightarrow> 0 \<le> de"
    using roic_term_bound [of m] pe_term_bound [of results] cf_term_bound [of m]
      growth_term_bound [of growth_data] debt_term_bound [OF d]
    by (simp add: score_sum [OF r])
  then show ?thesis by (simp add: score_sum)
qed

text \<open>
  The worked example: 12 for the ROIC, 20 for a PE of 10 against a peer average of 20,
  6 for the CF yield, 0 for a D/E of 0.5 and 9 for three growth years each: 47.
\<close>

theorem calculate_score_terms_witness:
  "roic example_metrics \<noteq> Some NaN
   \<and> (case debt_to_equity example_metrics of None \<Rightarrow> True | Some de \<Rightarrow> 0 \<le> de)
   \<and> calculate_score example_metrics
        [(''revenue_growth_years'', 3), (''earnings_growth_years'', 3)] (pe_result_of 10 20)
       = Fl 47
   \<and> fle (calculate_score example_metrics
        [(''revenue_growth_years'', 3), (''earnings_growth_years'', 3)] (pe_result_of 10 20))
       (Fl 100)"
  using calculate_score_terms [of example_metrics
      "[(''revenue_growth_years'', 3), (''earnings_growth_years'', 3)]" "pe_result_of 10 20"]
  by (simp add: example_metrics_def unknown_metrics_def pe_result_of_def roic_term_def pe_term_def
      cf_term_def debt_term_def growth_term_def clamp_def get_or_zero_def)

text \<open>
  C2 as stated fails three times. A PE result with value 0 and threshold 20 has a value
  and a non-zero threshold, so the claimed term is \<open>clamp(40, 0, 20) = 20\<close>; the code
  tests the value for truth and adds nothing. The debt term has no upper clamp: with a
  debt-to-equity ratio of -1 it is 45, and with ROIC 50 percent, CF yield 30 percent, PE
  10 against 20 and five growth years each the score is 30 + 20 + 20 + 45 + 15 = 130.
  And the ROIC can be NaN: the example calculator's history is NaN for the recent year
  and 14/81 for the year before, \<open>calculate_all\<close> stores the NaN as \<open>roic\<close>,
  \<open>min(nan * 100, 30)\<close> is NaN, and the score is NaN, which is not at most 100.
\<close>

theorem calculate_score_zero_value_and_above_100:
  "calculate_score unknown_metrics [] (pe_result_of 0 20) = Fl 0
   \<and> claimed_score unknown_metrics [] (pe_result_of 0 20) = 20
   \<and> calculate_score
        (example_metrics\<lparr>roic := Some (Fl (1/2)), cf_yield := Some (3/10),
           debt_to_equity := Some (-1)\<rparr>)
        [(''revenue_growth_years'', 5), (''earnings_growth_years'', 5)] (pe_result_of 10 20)
       = Fl 130
   \<and> calculate_roic_history nan_roic_calculator 6 = [NaN, Fl (14/81)]
   \<and> calculate_score
        (unknown_metrics\<lparr>roic := first_roic (calculate_roic_history nan_roic_calculator 6),
           roic_history := Some (calculate_roic_history nan_roic_calculator 6)\<rparr>) [] [] = NaN
   \<and> \<not> fle (calculate_score
        (unknown_metrics\<lparr>roic := first_roic (calculate_roic_history nan_roic_calculator 6),
           roic_history := Some (calculate_roic_history nan_roic_calculator 6)\<rparr>) [] [])
        (Fl 100)"
  by (simp add: roic_history_example first_roic_def calculate_score_def claimed_score_def
      example_metrics_def unknown_metrics_def pe_result_of_def roic_term_def pe_term_claimed_def
      cf_term_def debt_term_def growth_term_def clamp_def get_or_zero_def py_min_def py_max_def)

text \<open>
  C1 states that no criterion or derivation raises and that one company never aborts
  the batch. \<open>_apply_filters\<close> starts by calling \<open>self.filters.filter_pe_below_max\<close>, a
  method the class \<open>StockFilters\<close> does not define (its PE filter is
  \<open>filter_pe_below_industry\<close>): for every filters object, every company's metrics and
  growth data the call raises AttributeError before any filter runs, and
  \<open>_screen_companies\<close>, which has no \<open>try\<close>, passes the exception on at the first company
  of any batch.
\<close>

theorem apply_filters_raises:
  "apply_filters self m growth_data = Inl (AttributeError ''filter_pe_below_max'')
   \<and> screen_companies self ((m, growth_data) # rest)
       = Inl (AttributeError ''filter_pe_below_max'')"
proof -
  have "call_unary ''filter_pe_below_max'' self m = Inl (AttributeError ''filter_pe_below_max'')"
    by (simp add: call_unary_def StockFilters_methods_def)
  then have "apply_filters self m growth_data = Inl (AttributeError ''filter_pe_below_max'')"
    by (simp add: apply_filters_def and_then_def)
  then show ?thesis by (simp add: screen_companies_def)
qed

text \<open>
  C8, as the code has it. A filter whose required input is unknown fails closed. The PE
  filter without a PE ratio, the ROIC filter without a history (absent or empty), the two
  growth filters without a year count, and the debt-to-equity, free-cash-flow and
  CF-yield filters without their metric each return \<open>passed = false\<close> with a
  'not available' reason and neither value nor threshold. The positive-earnings filter
  returns the flag \<open>has_positive_earnings\<close>: it fails whenever TTM earnings are unknown
  and the flag is what \<open>calculate_all\<close> makes it (TTM earnings known and positive).
\<close>

theorem filters_fail_closed:
  "(pe_ratio m = None \<longrightarrow>
      filter_pe_below_industry self m =
        (\<lparr>passed = False, reason = [Lit ''PE ratio not available''],
          fvalue = None, threshold = None\<rparr>, self))
   \<and> (roic_history m = None \<or> roic_history m = Some [] \<longrightarrow>
      filter_roic_consistent self m =
        \<lparr>passed = False, reason = [Lit ''ROIC history not available''],
         fvalue = None, threshold = None\<rparr>)
   \<and> filter_revenue_growth self m None =
        \<lparr>passed = False, reason = [Lit ''Revenue growth data not available''],
         fvalue = None, threshold = None\<rparr>
   \<and> filter_earnings_growth self m None =
        \<lparr>passed = False, reason = [Lit ''Earnings growth data not available''],
         fvalue = None, threshold = None\<rparr>
   \<and> (debt_to_equity m = None \<longrightarrow>
      filter_debt_to_equity self m =
        \<lparr>passed = False, reason = [Lit ''D/E ratio not available''],
         fvalue = None, threshold = None\<rparr>)
   \<and> (free_cash_flow m = None \<longrightarrow>
      filter_positive_fcf self m =
        \<lparr>passed = False, reason = [Lit ''FCF not available''],
         fvalue = None, threshold = None\<rparr>)
   \<and> (cf_yield m = None \<longrightarrow>
      filter_cf_yield self m =
        \<lparr>passed = False, reason = [Lit ''CF yield not available''],
         fvalue = None, threshold = None\<rparr>)
   \<and> (ttm_earnings m = None \<and> has_positive_earnings m = earnings_flag (ttm_earnings m) \<longrightarrow>
      passed (filter_positive_earnings self m) = False)"
  by (auto simp: filter_pe_below_industry_def filter_roic_consistent_def
      filter_revenue_growth_def filter_earnings_growth_def filter_debt_to_equity_def
      filter_positive_fcf_def filter_cf_yield_def filter_positive_earnings_def
      earnings_flag_def Let_def)

text \<open>On metrics with every derived value unknown, all eight filters fail.\<close>

theorem filters_fail_closed_witness:
  "filter_pe_below_industry example_filters unknown_metrics =
        (\<lparr>passed = False, reason = [Lit ''PE ratio not available''],
          fvalue = None, threshold = None\<rparr>, example_filters)
   \<and> passed (filter_roic_consistent example_filters unknown_metrics) = False
   \<and> passed (filter_revenue_growth example_filters unknown_metrics None) = False
   \<and> passed (filter_earnings_growth example_filters unknown_metrics None) = False
   \<and> passed (filter_debt_to_equity example_filters unknown_metrics) = False
   \<and> passed (filter_positive_fcf example_filters unknown_metrics) = False
   \<and> passed (filter_cf_yield example_filters unknown_metrics) = False
   \<and> ttm_earnings unknown_metrics = None
   \<and> has_positive_earnings unknown_metrics = earnings_flag (ttm_earnings unknown_metrics)
   \<and> passed (filter_positive_earnings example_filters unknown_metrics) = False"
  using filters_fail_closed [of unknown_metrics example_filters]
  by (simp add: unknown_metrics_def earnings_flag_def)

text \<open>
  C8 as stated fails for the positive-earnings filter. It never looks at the TTM
  earnings to decide: on metrics whose TTM earnings are unknown and whose flag is set,
  it passes. And its reason prints unknown earnings as the number 0: the reason for
  unknown earnings is the reason for earnings of exactly 0.
\<close>

theorem positive_earnings_reads_flag:
  "ttm_earnings (unknown_metrics\<lparr>has_positive_earnings := True\<rparr>) = None
   \<and> passed (filter_positive_earnings example_filters
        (unknown_metrics\<lparr>has_positive_earnings := True\<rparr>)) = True
   \<and> reason (filter_positive_earnings example_filters unknown_metrics) =
       [Lit ''TTM Earnings: '', Fixed 1 0, Lit ''M '', Lit ''(loss-maker)'']
   \<and> reason (filter_positive_earnings example_filters (unknown_metrics\<lparr>ttm_earnings := Some 0\<rparr>))
       = reason (filter_positive_earnings example_filters unknown_metrics)"
  by (simp add: filter_positive_earnings_def unknown_metrics_def or_else_def)

end
